theory Spec2Isabelle
  imports Complex_Main "HOL-Library.Word" "HOL-Library.Sublist"
begin

section \<open>JavaScript values\<close>

text \<open>
  A JavaScript string is a sequence of UTF-16 code units and \<^verbatim>\<open>.length\<close> counts
  them, so a string is a list of 16-bit words. A string is falsy exactly when it is empty.
\<close>

type_synonym code_unit = "16 word"
type_synonym jsstring = "code_unit list"

text \<open>An ASCII literal as a JavaScript string: one code unit for each character.\<close>

definition js :: "string \<Rightarrow> jsstring" where
  "js s = map (\<lambda>c. word_of_nat (of_char c)) s"

definition SP :: code_unit where
  "SP = 0x20"

text \<open>
  The class \<^verbatim>\<open>\s\<close> of a regular expression, which is also the set that
  \<^verbatim>\<open>String.prototype.trim\<close> strips: the WhiteSpace and LineTerminator code points.
\<close>

definition isWhiteSpace :: "code_unit \<Rightarrow> bool" where
  "isWhiteSpace c \<longleftrightarrow>
     c = 0x09 \<or> c = 0x0A \<or> c = 0x0B \<or> c = 0x0C \<or> c = 0x0D \<or> c = 0x20 \<or> c = 0xA0 \<or>
     c = 0x1680 \<or> (0x2000 \<le> c \<and> c \<le> 0x200A) \<or> c = 0x2028 \<or> c = 0x2029 \<or>
     c = 0x202F \<or> c = 0x205F \<or> c = 0x3000 \<or> c = 0xFEFF"

abbreviation no_ws_pair :: "code_unit \<Rightarrow> code_unit \<Rightarrow> bool" where
  "no_ws_pair a b \<equiv> \<not> (isWhiteSpace a \<and> isWhiteSpace b)"

text \<open>
  \<^verbatim>\<open>text.replace(/\s+/g, ' ')\<close>: scanning from the left, every maximal run of
  whitespace is replaced by one space; every other code unit is kept.
\<close>

function replace_ws :: "jsstring \<Rightarrow> jsstring" where
  "replace_ws [] = []"
| "replace_ws (c # cs) =
     (if isWhiteSpace c then SP # replace_ws (dropWhile isWhiteSpace cs)
      else c # replace_ws cs)"
  by pat_completeness auto
termination
  by (relation "measure length") (auto simp: length_dropWhile_le less_Suc_eq_le)

text \<open>\<^verbatim>\<open>.trim()\<close>: whitespace is removed from both ends.\<close>

definition trim :: "jsstring \<Rightarrow> jsstring" where
  "trim s = rev (dropWhile isWhiteSpace (rev (dropWhile isWhiteSpace s)))"

text \<open>
  The text that SQLite holds for a JavaScript string: the string goes to the database as
  UTF-8, where a surrogate code unit that is not part of a pair becomes U+FFFD. Text read
  from the database is this well-formed string, and texts are compared in this form.
\<close>

definition is_high :: "code_unit \<Rightarrow> bool" where
  "is_high c \<longleftrightarrow> 0xD800 \<le> c \<and> c \<le> 0xDBFF"

definition is_low :: "code_unit \<Rightarrow> bool" where
  "is_low c \<longleftrightarrow> 0xDC00 \<le> c \<and> c \<le> 0xDFFF"

fun to_well_formed :: "jsstring \<Rightarrow> jsstring" where
  "to_well_formed [] = []"
| "to_well_formed [c] = (if is_high c \<or> is_low c then [0xFFFD] else [c])"
| "to_well_formed (c # d # cs) =
     (if is_high c \<and> is_low d then c # d # to_well_formed cs
      else if is_high c \<or> is_low c then 0xFFFD # to_well_formed (d # cs)
      else c # to_well_formed (d # cs))"

text \<open>
  A JavaScript number is NaN, an infinity or a finite number. Finite numbers are read as
  exact reals: the rounding of IEEE-754 doubles, overflow to an infinity, and the sign of
  zero are outside the model. The operations follow IEEE-754 on NaN and the infinities.
\<close>

datatype number = NaN | NInf | Fin (fin: real) | PInf

fun js_neg :: "number \<Rightarrow> number" where
  "js_neg NaN = NaN"
| "js_neg NInf = PInf"
| "js_neg (Fin a) = Fin (- a)"
| "js_neg PInf = NInf"

fun js_add :: "number \<Rightarrow> number \<Rightarrow> number" where
  "js_add NaN b = NaN"
| "js_add a NaN = NaN"
| "js_add (Fin a) (Fin b) = Fin (a + b)"
| "js_add PInf NInf = NaN"
| "js_add NInf PInf = NaN"
| "js_add PInf b = PInf"
| "js_add a PInf = PInf"
| "js_add NInf b = NInf"
| "js_add a NInf = NInf"

definition js_sub :: "number \<Rightarrow> number \<Rightarrow> number" where
  "js_sub a b = js_add a (js_neg b)"

text \<open>The sign of a number that is not NaN, for the products and quotients with an infinity.\<close>

fun sign_of :: "number \<Rightarrow> real" where
  "sign_of NaN = 0"
| "sign_of NInf = - 1"
| "sign_of (Fin a) = sgn a"
| "sign_of PInf = 1"

definition signed_inf :: "real \<Rightarrow> number" where
  "signed_inf s = (if s = 0 then NaN else if 0 < s then PInf else NInf)"

fun js_mul :: "number \<Rightarrow> number \<Rightarrow> number" where
  "js_mul NaN b = NaN"
| "js_mul a NaN = NaN"
| "js_mul (Fin a) (Fin b) = Fin (a * b)"
| "js_mul a b = signed_inf (sign_of a * sign_of b)"

text \<open>Division; a finite divisor 0 is taken as positive zero.\<close>

fun js_div :: "number \<Rightarrow> number \<Rightarrow> number" where
  "js_div NaN b = NaN"
| "js_div a NaN = NaN"
| "js_div (Fin a) (Fin b) = (if b = 0 then signed_inf (sgn a) else Fin (a / b))"
| "js_div (Fin a) b = Fin 0"
| "js_div a (Fin b) = signed_inf (sign_of a * (if b < 0 then - 1 else 1))"
| "js_div a b = NaN"

text \<open>\<^verbatim>\<open>a < b\<close>, which is false when either side is NaN.\<close>

fun js_less :: "number \<Rightarrow> number \<Rightarrow> bool" where
  "js_less NaN b = False"
| "js_less a NaN = False"
| "js_less (Fin a) (Fin b) = (a < b)"
| "js_less PInf b = False"
| "js_less a NInf = False"
| "js_less a b = True"

text \<open>\<^verbatim>\<open>Math.max(a, b)\<close> and \<^verbatim>\<open>Math.floor(a)\<close>.\<close>

fun js_max :: "number \<Rightarrow> number \<Rightarrow> number" where
  "js_max NaN b = NaN"
| "js_max a NaN = NaN"
| "js_max (Fin a) (Fin b) = Fin (max a b)"
| "js_max PInf b = PInf"
| "js_max a PInf = PInf"
| "js_max NInf b = b"
| "js_max a NInf = a"

fun js_floor :: "number \<Rightarrow> number" where
  "js_floor (Fin a) = Fin (of_int \<lfloor>a\<rfloor>)"
| "js_floor a = a"

text \<open>
  The values of a parsed JSON body. A field that the body does not have is \<open>Undefined\<close>.
\<close>

datatype jsvalue =
    Undefined
  | Null
  | Bool bool
  | Number number
  | String jsstring
  | Array "jsvalue list"
  | Object "(jsstring \<times> jsvalue) list"

text \<open>\<^verbatim>\<open>!v\<close> is false exactly for the truthy values.\<close>

fun truthy :: "jsvalue \<Rightarrow> bool" where
  "truthy Undefined = False"
| "truthy Null = False"
| "truthy (Bool b) = b"
| "truthy (Number n) = (n \<noteq> NaN \<and> n \<noteq> Fin 0)"
| "truthy (String s) = (s \<noteq> [])"
| "truthy (Array vs) = True"
| "truthy (Object kvs) = True"

text \<open>\<^verbatim>\<open>typeof v === 'number'\<close>, and the same for strings.\<close>

fun is_number :: "jsvalue \<Rightarrow> bool" where
  "is_number (Number n) = True"
| "is_number v = False"

fun is_string :: "jsvalue \<Rightarrow> bool" where
  "is_string (String s) = True"
| "is_string v = False"

text \<open>\<^verbatim>\<open>parseFloat(v) || d\<close>: NaN and 0 are falsy, every other number is truthy.\<close>

definition or_default :: "number \<Rightarrow> number \<Rightarrow> number" where
  "or_default v d = (if truthy (Number v) then v else d)"

text \<open>A number in a JSON response: \<^verbatim>\<open>JSON.stringify\<close> writes null for NaN and the
  infinities.\<close>

fun to_json :: "number \<Rightarrow> jsvalue" where
  "to_json (Fin a) = Number (Fin a)"
| "to_json a = Null"


section \<open>The token estimator\<close>

text \<open>
  \<^verbatim>\<open>estimateTokens\<close>, the same function in the server's optimize handler and in the
  client's OptimizeTab:
  \<^verbatim>\<open>
    if (!text) return 0;
    const trimmed = text.replace(/\s+/g, ' ').trim();
    if (trimmed.length === 0) return 0;
    return Math.max(1, Math.ceil(trimmed.length / 4));
  \<close>
  First on strings.
\<close>

definition estimateTokens :: "jsstring \<Rightarrow> int" where
  "estimateTokens text =
     (if text = [] then 0
      else let trimmed = trim (replace_ws text)
           in if length trimmed = 0 then 0
              else max 1 \<lceil>real (length trimmed) / 4\<rceil>)"

text \<open>
  Then on any value, as the handler can call it: a falsy value gives 0; a truthy value
  that is not a string has no function \<^verbatim>\<open>replace\<close>, so the call throws (\<open>None\<close>).
\<close>

definition estimateTokens_value :: "jsvalue \<Rightarrow> int option" where
  "estimateTokens_value v =
     (if truthy v
      then (case v of String s \<Rightarrow> Some (estimateTokens s) | _ \<Rightarrow> None)
      else Some 0)"

text \<open>
  The estimator as the specification words it: normalise the whitespace; 0 for an empty
  result, otherwise the ceiling of a quarter of the length, at least 1.
\<close>

definition estimate_spec :: "jsstring \<Rightarrow> int" where
  "estimate_spec text =
     (let r = trim (replace_ws text)
      in if r = [] then 0 else max 1 \<lceil>real (length r) / 4\<rceil>)"

text \<open>
  Collapsing as the specification words it, one unit at a time: a whitespace unit that
  another whitespace unit follows is dropped, any other whitespace unit becomes one space,
  and every other unit stays.
\<close>

fun collapse_spec :: "jsstring \<Rightarrow> jsstring" where
  "collapse_spec [] = []"
| "collapse_spec [c] = [if isWhiteSpace c then SP else c]"
| "collapse_spec (c # d # cs) =
     (if isWhiteSpace c \<and> isWhiteSpace d then collapse_spec (d # cs)
      else (if isWhiteSpace c then SP else c) # collapse_spec (d # cs))"


section \<open>The store (db.js)\<close>

text \<open>
  The two tables of the SQLite database. The column \<^verbatim>\<open>created_at\<close>, the time
  of the insert, is left out; no handler reads it. Both keys are
  \<^verbatim>\<open>INTEGER PRIMARY KEY AUTOINCREMENT\<close>: the table's sequence counter gives the next
  identifier. A number column holds the number that was bound, an infinity included; NaN
  is bound as NULL, which the \<^verbatim>\<open>NOT NULL\<close> columns refuse. Statements that are well
  formed are taken to execute: failures of the storage medium are outside the model.
\<close>

record user_row =
  uid :: int
  email :: jsstring
  password_hash :: jsstring

record optimization =
  oid :: int
  user_id :: "int option"
  prompt :: jsstring
  optimized_prompt :: jsstring
  tokens_before :: number
  tokens_after :: number
  tokens_saved :: number
  co2_saved_kg :: number

record database =
  users :: "user_row list"
  users_seq :: int
  optimizations :: "optimization list"
  optimizations_seq :: int

definition empty_db :: database where
  "empty_db = \<lparr>users = [], users_seq = 0, optimizations = [], optimizations_seq = 0\<rparr>"

text \<open>\<^verbatim>\<open>SELECT ... FROM users WHERE email = ?\<close> and \<^verbatim>\<open>WHERE id = ?\<close>, read with
  \<^verbatim>\<open>.get\<close>: the first matching row. The argument is the text that was bound.\<close>

definition select_user_by_email :: "database \<Rightarrow> jsstring \<Rightarrow> user_row option" where
  "select_user_by_email db e = find (\<lambda>u. email u = e) (users db)"

definition select_user_by_id :: "database \<Rightarrow> int \<Rightarrow> user_row option" where
  "select_user_by_id db i = find (\<lambda>u. uid u = i) (users db)"

text \<open>\<^verbatim>\<open>INSERT INTO users (email, password_hash)\<close>: the column \<^verbatim>\<open>email\<close> is
  \<^verbatim>\<open>UNIQUE\<close>, so the statement throws when the email is taken (\<open>None\<close>); otherwise it
  returns \<^verbatim>\<open>lastInsertRowid\<close> and the new state.\<close>

definition insert_user :: "database \<Rightarrow> jsstring \<Rightarrow> jsstring \<Rightarrow> (int \<times> database) option" where
  "insert_user db e h =
     (if e \<in> email ` set (users db) then None
      else let i = users_seq db + 1
           in Some (i, db\<lparr>users := users db @ [\<lparr>uid = i, email = e, password_hash = h\<rparr>],
                          users_seq := i\<rparr>))"

text \<open>\<^verbatim>\<open>SELECT IFNULL(SUM(co2_saved_kg), 0)\<close>: the sum of the column from the first
  row on; a sum that is NaN (an infinity added to the opposite one) is NULL, and so is
  the sum of no rows.\<close>

definition sum_or_zero :: "number list \<Rightarrow> number" where
  "sum_or_zero vs = (case foldl js_add (Fin 0) vs of NaN \<Rightarrow> Fin 0 | s \<Rightarrow> s)"


section \<open>The server (server/index.js)\<close>

text \<open>
  What the server takes from its libraries and its environment.
  \<^item> \<open>bcrypt_hash\<close> and \<open>bcrypt_compare\<close>: the bcrypt calls, \<open>None\<close> where the promise
    rejects (the library rejects data that is not a string).
  \<^item> \<open>jwt_sign\<close> and \<open>jwt_verify\<close>: the jsonwebtoken calls; \<open>jwt_verify\<close> is \<open>None\<close> where
    \<^verbatim>\<open>jwt.verify\<close> throws (a malformed or expired token, a wrong signature).
  \<^item> \<open>bind_other\<close>: the text that the database library takes for a bound value that is
    not a string, \<open>None\<close> where binding it makes the statement throw.
  \<^item> \<open>grid_env\<close>: \<^verbatim>\<open>parseFloat(process.env.GRID_KGCO2_PER_KWH)\<close>.
\<close>

record user =
  user_ident :: int
  user_email :: jsvalue

record externals =
  bcrypt_hash :: "jsvalue \<Rightarrow> jsstring option"
  bcrypt_compare :: "jsvalue \<Rightarrow> jsstring \<Rightarrow> bool option"
  jwt_sign :: "user \<Rightarrow> jsstring"
  jwt_verify :: "jsstring \<Rightarrow> user option"
  bind_other :: "jsvalue \<Rightarrow> jsstring option"
  grid_env :: number

text \<open>The text of a value bound to a text column or compared with one.\<close>

definition sqlite_text :: "externals \<Rightarrow> jsvalue \<Rightarrow> jsstring option" where
  "sqlite_text x v = (case v of String s \<Rightarrow> Some (to_well_formed s) | _ \<Rightarrow> bind_other x v)"

text \<open>\<^verbatim>\<open>INSERT INTO optimizations (user_id, prompt, optimized_prompt, tokens_before,
  tokens_after, tokens_saved, co2_saved_kg)\<close>, run with the handler's values. It throws
  (\<open>None\<close>) where a value cannot be bound or a number is NaN.\<close>

definition insert_optimization ::
  "externals \<Rightarrow> database \<Rightarrow> int option \<Rightarrow> jsvalue \<Rightarrow> jsvalue \<Rightarrow>
     number \<Rightarrow> number \<Rightarrow> number \<Rightarrow> number \<Rightarrow> (int \<times> database) option" where
  "insert_optimization x db u p op tb ta ts co2 =
     (case sqlite_text x p of
        None \<Rightarrow> None
      | Some pt \<Rightarrow>
          (case sqlite_text x op of
             None \<Rightarrow> None
           | Some ot \<Rightarrow>
               if tb = NaN \<or> ta = NaN \<or> ts = NaN \<or> co2 = NaN then None
               else let i = optimizations_seq db + 1
                    in Some (i, db\<lparr>optimizations := optimizations db @
                                 [\<lparr>oid = i, user_id = u, prompt = pt, optimized_prompt = ot,
                                   tokens_before = tb, tokens_after = ta, tokens_saved = ts,
                                   co2_saved_kg = co2\<rparr>],
                               optimizations_seq := i\<rparr>)))"

text \<open>Request bodies, with the fields the handlers destructure from
  \<^verbatim>\<open>req.body || {}\<close>; each field is any JSON value.\<close>

record auth_body =
  b_email :: jsvalue
  b_password :: jsvalue

record optimize_body =
  b_prompt :: jsvalue
  b_optimized_prompt :: jsvalue
  b_tokens_before :: jsvalue
  b_tokens_after :: jsvalue

definition auth_fields :: "auth_body option \<Rightarrow> auth_body" where
  "auth_fields b =
     (case b of None \<Rightarrow> \<lparr>b_email = Undefined, b_password = Undefined\<rparr> | Some f \<Rightarrow> f)"

definition optimize_fields :: "optimize_body option \<Rightarrow> optimize_body" where
  "optimize_fields b =
     (case b of
        None \<Rightarrow> \<lparr>b_prompt = Undefined, b_optimized_prompt = Undefined,
                  b_tokens_before = Undefined, b_tokens_after = Undefined\<rparr>
      | Some f \<Rightarrow> f)"

text \<open>The JSON of the responses; a number goes through \<open>to_json\<close>.\<close>

record optimize_json =
  res_id :: int
  res_user_id :: "int option"
  res_tokens_before :: jsvalue
  res_tokens_after :: jsvalue
  res_tokens_saved :: jsvalue
  res_kwh_saved :: jsvalue
  res_co2_saved_kg :: jsvalue

record stats_json =
  st_users :: nat
  st_co2_saved_kg :: jsvalue
  st_co2_saved_g :: jsvalue
  st_prompts_optimized :: nat
  st_energy_saved_kwh :: jsvalue
  st_impact_score :: jsvalue

datatype json =
    Message string
  | UserJson "user option"
  | OkJson
  | OptimizeJson optimize_json
  | StatsJson stats_json

datatype cookie_effect = NoCookie | SetToken jsstring | ClearToken

record response =
  status :: nat
  body :: json
  cookie :: cookie_effect

definition reply :: "nat \<Rightarrow> json \<Rightarrow> response" where
  "reply s j = \<lparr>status = s, body = j, cookie = NoCookie\<rparr>"

definition createToken :: "externals \<Rightarrow> user \<Rightarrow> jsstring" where
  "createToken x u = jwt_sign x u"

text \<open>
  \<^verbatim>\<open>getUserFromToken\<close>: the whole body is inside \<^verbatim>\<open>try\<close>, and the handler of the
  exception returns null.
\<close>

definition getUserFromToken :: "externals \<Rightarrow> database \<Rightarrow> jsstring option \<Rightarrow> user option" where
  "getUserFromToken x db token =
     (case token of
        None \<Rightarrow> None
      | Some t \<Rightarrow>
          if t = [] then None
          else (case jwt_verify x t of
                  None \<Rightarrow> None
                | Some payload \<Rightarrow>
                    (case select_user_by_id db (user_ident payload) of
                       None \<Rightarrow> None
                     | Some row \<Rightarrow>
                         Some \<lparr>user_ident = uid row, user_email = String (email row)\<rparr>)))"

text \<open>
  The signup handler. Each \<open>None\<close> of a step inside \<^verbatim>\<open>try\<close> is an exception, which the
  handler answers with 500.
\<close>

definition signup :: "externals \<Rightarrow> database \<Rightarrow> auth_body option \<Rightarrow> response \<times> database" where
  "signup x db b =
     (let e = b_email (auth_fields b); p = b_password (auth_fields b)
      in if truthy e \<and> truthy p
         then (case sqlite_text x e of
                 None \<Rightarrow> (reply 500 (Message ''Server error''), db)
               | Some t \<Rightarrow>
                   (case select_user_by_email db t of
                      Some exists \<Rightarrow> (reply 409 (Message ''Email already in use''), db)
                    | None \<Rightarrow>
                        (case bcrypt_hash x p of
                           None \<Rightarrow> (reply 500 (Message ''Server error''), db)
                         | Some h \<Rightarrow>
                             (case insert_user db t h of
                                None \<Rightarrow> (reply 500 (Message ''Server error''), db)
                              | Some (i, db') \<Rightarrow>
                                  let u = \<lparr>user_ident = i, user_email = e\<rparr>
                                  in (\<lparr>status = 200, body = UserJson (Some u),
                                       cookie = SetToken (createToken x u)\<rparr>, db')))))
         else (reply 400 (Message ''Email and password required''), db))"

definition login :: "externals \<Rightarrow> database \<Rightarrow> auth_body option \<Rightarrow> response \<times> database" where
  "login x db b =
     (let e = b_email (auth_fields b); p = b_password (auth_fields b)
      in if truthy e \<and> truthy p
         then (case sqlite_text x e of
                 None \<Rightarrow> (reply 500 (Message ''Server error''), db)
               | Some t \<Rightarrow>
                   (case select_user_by_email db t of
                      None \<Rightarrow> (reply 401 (Message ''Invalid credentials''), db)
                    | Some row \<Rightarrow>
                        (case bcrypt_compare x p (password_hash row) of
                           None \<Rightarrow> (reply 500 (Message ''Server error''), db)
                         | Some ok \<Rightarrow>
                             if ok
                             then let u = \<lparr>user_ident = uid row,
                                           user_email = String (email row)\<rparr>
                                  in (\<lparr>status = 200, body = UserJson (Some u),
                                       cookie = SetToken (createToken x u)\<rparr>, db)
                             else (reply 401 (Message ''Invalid credentials''), db))))
         else (reply 400 (Message ''Email and password required''), db))"

definition me :: "externals \<Rightarrow> database \<Rightarrow> jsstring option \<Rightarrow> response \<times> database" where
  "me x db token =
     (case getUserFromToken x db token of
        None \<Rightarrow> (reply 200 (UserJson None), db)
      | Some u \<Rightarrow> (reply 200 (UserJson (Some u)), db))"

definition logout :: "database \<Rightarrow> response \<times> database" where
  "logout db = (\<lparr>status = 200, body = OkJson, cookie = ClearToken\<rparr>, db)"

text \<open>The constants of the conversion, as both handlers compute them.\<close>

definition kwh_per_token :: number where
  "kwh_per_token = js_div (Fin 0.0003) (Fin 1000)"

definition GRID_KGCO2_PER_KWH :: "externals \<Rightarrow> number" where
  "GRID_KGCO2_PER_KWH x = or_default (grid_env x) (Fin 0.45)"

text \<open>
  The token counts of the optimize handler; \<open>None\<close> where the estimator throws:
  \<^verbatim>\<open>
    const tb = typeof tokens_before === 'number' ? tokens_before : estimateTokens(prompt);
    const ta = typeof tokens_after === 'number'
      ? tokens_after
      : (optimized_prompt ? estimateTokens(optimized_prompt)
                          : Math.max(0, tb - Math.max(0, Math.floor(tb * 0.2))));
  \<close>
\<close>

definition tokens_before_of :: "optimize_body \<Rightarrow> number option" where
  "tokens_before_of f =
     (case b_tokens_before f of
        Number n \<Rightarrow> Some n
      | _ \<Rightarrow> map_option (\<lambda>i. Fin (of_int i)) (estimateTokens_value (b_prompt f)))"

definition tokens_after_of :: "optimize_body \<Rightarrow> number \<Rightarrow> number option" where
  "tokens_after_of f tb =
     (case b_tokens_after f of
        Number n \<Rightarrow> Some n
      | _ \<Rightarrow>
          if truthy (b_optimized_prompt f)
          then map_option (\<lambda>i. Fin (of_int i)) (estimateTokens_value (b_optimized_prompt f))
          else Some (js_max (Fin 0)
                      (js_sub tb (js_max (Fin 0) (js_floor (js_mul tb (Fin 0.2)))))))"

text \<open>The savings of a pair of token counts: tokens, energy and CO2, in this order.\<close>

definition savings :: "number \<Rightarrow> number \<Rightarrow> number \<Rightarrow> number \<times> number \<times> number" where
  "savings grid tb ta =
     (let tokens_saved = js_max (Fin 0) (js_sub tb ta);
          kwh_saved = js_mul tokens_saved kwh_per_token;
          co2_saved_kg = js_mul kwh_saved grid
      in (tokens_saved, kwh_saved, co2_saved_kg))"

text \<open>
  The body of \<^verbatim>\<open>try\<close> in the optimize handler, after the check of the prompt; \<open>None\<close>
  where it throws.
\<close>

definition optimize_try ::
  "externals \<Rightarrow> database \<Rightarrow> jsstring option \<Rightarrow> optimize_body \<Rightarrow> (response \<times> database) option" where
  "optimize_try x db token f =
     (case tokens_before_of f of
        None \<Rightarrow> None
      | Some tb \<Rightarrow>
          (case tokens_after_of f tb of
             None \<Rightarrow> None
           | Some ta \<Rightarrow>
               let (ts, kwh, co2) = savings (GRID_KGCO2_PER_KWH x) tb ta;
                   u = (case getUserFromToken x db token of
                          None \<Rightarrow> None | Some usr \<Rightarrow> Some (user_ident usr));
                   op = (if truthy (b_optimized_prompt f) then b_optimized_prompt f
                         else String [])
               in (case insert_optimization x db u (b_prompt f) op tb ta ts co2 of
                     None \<Rightarrow> None
                   | Some (i, db') \<Rightarrow>
                       Some (reply 200 (OptimizeJson
                               \<lparr>res_id = i, res_user_id = u,
                                res_tokens_before = to_json tb, res_tokens_after = to_json ta,
                                res_tokens_saved = to_json ts, res_kwh_saved = to_json kwh,
                                res_co2_saved_kg = to_json co2\<rparr>), db'))))"

definition optimize ::
  "externals \<Rightarrow> database \<Rightarrow> jsstring option \<Rightarrow> optimize_body option \<Rightarrow> response \<times> database" where
  "optimize x db token b =
     (if truthy (b_prompt (optimize_fields b))
      then (case optimize_try x db token (optimize_fields b) of
              None \<Rightarrow> (reply 500 (Message ''Server error''), db)
            | Some r \<Rightarrow> r)
      else (reply 400 (Message ''prompt required''), db))"

text \<open>The stats handler. Its three statements only read, and nothing in it throws.\<close>

definition stats :: "externals \<Rightarrow> database \<Rightarrow> response \<times> database" where
  "stats x db =
     (let n_users = length (users db);
          prompts_optimized = length (optimizations db);
          co2 = sum_or_zero (map co2_saved_kg (optimizations db));
          grid = GRID_KGCO2_PER_KWH x;
          energy_saved_kwh = (if js_less (Fin 0) grid then js_div co2 grid else Fin 0);
          impact_score =
            js_add (js_add (js_mul co2 (Fin 1000)) (js_mul (Fin (real prompts_optimized)) (Fin 0.1)))
              (js_mul (Fin (real n_users)) (Fin 1))
      in (reply 200 (StatsJson
            \<lparr>st_users = n_users, st_co2_saved_kg = to_json co2,
             st_co2_saved_g = to_json (js_mul co2 (Fin 1000)),
             st_prompts_optimized = prompts_optimized,
             st_energy_saved_kwh = to_json energy_saved_kwh,
             st_impact_score = to_json impact_score\<rparr>), db))"

definition health :: "database \<Rightarrow> response \<times> database" where
  "health db = (reply 200 OkJson, db)"

text \<open>A request: its route, its session cookie where the route reads it, and its body.\<close>

datatype request =
    Signup "auth_body option"
  | Login "auth_body option"
  | Me "jsstring option"
  | Logout
  | Optimize "jsstring option" "optimize_body option"
  | Stats
  | Health

fun handle :: "externals \<Rightarrow> database \<Rightarrow> request \<Rightarrow> response \<times> database" where
  "handle x db (Signup b) = signup x db b"
| "handle x db (Login b) = login x db b"
| "handle x db (Me token) = me x db token"
| "handle x db Logout = logout db"
| "handle x db (Optimize token b) = optimize x db token b"
| "handle x db Stats = stats x db"
| "handle x db Health = health db"

text \<open>The store after a sequence of requests.\<close>

fun run :: "externals \<Rightarrow> database \<Rightarrow> request list \<Rightarrow> database" where
  "run x db [] = db"
| "run x db (r # rs) = run x (snd (handle x db r)) rs"

text \<open>The request with another session cookie; only two routes read the cookie.\<close>

fun with_token :: "jsstring option \<Rightarrow> request \<Rightarrow> request" where
  "with_token t (Me _) = Me t"
| "with_token t (Optimize _ b) = Optimize t b"
| "with_token t r = r"

text \<open>The row at the end of the optimizations table after an optimize request.\<close>

abbreviation stored_row ::
  "externals \<Rightarrow> database \<Rightarrow> jsstring option \<Rightarrow> optimize_body option \<Rightarrow> optimization" where
  "stored_row x db tok b \<equiv> last (optimizations (snd (optimize x db tok b)))"


section \<open>Sample data\<close>

text \<open>
  Stand-ins for the libraries, for running the handlers on concrete requests: a hash that
  prefixes the password and, like the library, rejects what is not a string; two tokens
  that verify, one for user 1 and one for a user identifier that no row has; a database
  library that refuses every bound value that is not a string. The argument is the parsed
  grid intensity of the environment.
\<close>

definition sample_externals :: "number \<Rightarrow> externals" where
  "sample_externals g =
     \<lparr>bcrypt_hash = (\<lambda>v. case v of String p \<Rightarrow> Some (js ''hash:'' @ p) | _ \<Rightarrow> None),
      bcrypt_compare =
        (\<lambda>v h. case v of String p \<Rightarrow> Some (h = js ''hash:'' @ p) | _ \<Rightarrow> None),
      jwt_sign = (\<lambda>u. if user_ident u = 1 then js ''valid-1'' else js ''valid-9''),
      jwt_verify = (\<lambda>t. if t = js ''valid-1''
                          then Some \<lparr>user_ident = 1, user_email = String (js ''a@x.com'')\<rparr>
                          else if t = js ''valid-9''
                          then Some \<lparr>user_ident = 9, user_email = String (js ''z@x.com'')\<rparr>
                          else None),
      bind_other = (\<lambda>v. None),
      grid_env = g\<rparr>"

text \<open>The store after one signup, of \<^verbatim>\<open>a@x.com\<close> with the password \<^verbatim>\<open>pw1\<close>.\<close>

definition registered_db :: database where
  "registered_db =
     snd (signup (sample_externals NaN) empty_db
            (Some \<lparr>b_email = String (js ''a@x.com''), b_password = String (js ''pw1'')\<rparr>))"

text \<open>A request body of the optimize route, from its four fields.\<close>

abbreviation body_of :: "jsvalue \<Rightarrow> jsvalue \<Rightarrow> jsvalue \<Rightarrow> jsvalue \<Rightarrow> optimize_body option" where
  "body_of p op tb ta \<equiv>
     Some \<lparr>b_prompt = p, b_optimized_prompt = op, b_tokens_before = tb, b_tokens_after = ta\<rparr>"

section \<open>Basic facts\<close>

lemma estimateTokens_nonneg: "0 \<le> estimateTokens t"
  by (simp add: estimateTokens_def Let_def)

lemma js_nonempty: "js (c # s) \<noteq> []"
  by (simp add: js_def)



section \<open>The estimator on normalised text\<close>

lemmas eval_defs =
  js_def estimateTokens_def trim_def isWhiteSpace_def SP_def

lemma ceiling_quarter: "\<lceil>real n / 4\<rceil> = int ((n + 3) div 4)"
proof -
  have "\<lceil>real n / 4\<rceil> = \<lceil>of_int (int n) / of_int 4 :: real\<rceil>" by simp
  also have "\<dots> = - (- int n div 4)" by (rule ceiling_divide_eq_div)
  also have "\<dots> = int ((n + 3) div 4)" by (simp add: zdiv_int)
  finally show ?thesis .
qed

lemma isWhiteSpace_SP: "isWhiteSpace SP"
  by (simp add: isWhiteSpace_def SP_def)

lemma length_replace_ws_le: "length (replace_ws t) \<le> length t"
proof (induction t rule: replace_ws.induct)
  case 1
  show ?case by simp
next
  case (2 c cs)
  have "length (dropWhile isWhiteSpace cs) \<le> length cs" by (rule length_dropWhile_le)
  with 2 show ?case by (auto simp: le_Suc_eq)
qed

lemma dropWhile_full: "length xs \<le> length (dropWhile P xs) \<Longrightarrow> dropWhile P xs = xs"
proof -
  assume a: "length xs \<le> length (dropWhile P xs)"
  have "length (takeWhile P xs) + length (dropWhile P xs) = length xs"
    by (metis length_append takeWhile_dropWhile_id)
  with a have "length (takeWhile P xs) = 0" by linarith
  then have "takeWhile P xs = []" by simp
  then show ?thesis by (metis append_Nil takeWhile_dropWhile_id)
qed

lemma replace_ws_head:
  "xs \<noteq> [] \<Longrightarrow> \<not> isWhiteSpace (hd xs) \<Longrightarrow> replace_ws xs \<noteq> [] \<and> hd (replace_ws xs) = hd xs"
  by (cases xs) auto

lemma successively_Cons_hd:
  "successively P (x # xs) \<longleftrightarrow> (xs = [] \<or> P x (hd xs)) \<and> successively P xs"
  by (cases xs) auto

lemma replace_ws_successively: "successively no_ws_pair (replace_ws t)"
proof (induction t rule: replace_ws.induct)
  case 1
  show ?case by simp
next
  case (2 c cs)
  show ?case
  proof (cases "isWhiteSpace c")
    case True
    let ?d = "dropWhile isWhiteSpace cs"
    have "replace_ws ?d = [] \<or> \<not> isWhiteSpace (hd (replace_ws ?d))"
    proof (cases "?d = []")
      case True
      then have "replace_ws ?d = []" by (simp only: replace_ws.simps)
      then show ?thesis ..
    next
      case False
      moreover from False have n: "\<not> isWhiteSpace (hd ?d)"
        by (rule hd_dropWhile)
      ultimately have "hd (replace_ws ?d) = hd ?d" using replace_ws_head by blast
      with n show ?thesis by simp
    qed
    with True 2(1) show ?thesis by (simp add: successively_Cons_hd)
  next
    case False
    with 2(2) show ?thesis by (simp add: successively_Cons_hd)
  qed
qed

lemma replace_ws_only_SP: "c \<in> set (replace_ws t) \<Longrightarrow> isWhiteSpace c \<Longrightarrow> c = SP"
proof (induction t rule: replace_ws.induct)
  case 1
  then show ?case by simp
next
  case (2 d ds)
  then show ?case by (auto split: if_splits)
qed

lemma filter_dropWhile_neg: "filter (\<lambda>c. \<not> P c) (dropWhile P xs) = filter (\<lambda>c. \<not> P c) xs"
  by (induction xs) auto

lemma replace_ws_keeps_text:
  "filter (\<lambda>c. \<not> isWhiteSpace c) (replace_ws t) = filter (\<lambda>c. \<not> isWhiteSpace c) t"
proof (induction t rule: replace_ws.induct)
  case 1
  show ?case by simp
next
  case (2 c cs)
  then show ?case by (auto simp: isWhiteSpace_SP filter_dropWhile_neg)
qed

lemma replace_ws_fixed:
  assumes "replace_ws t = t"
  shows "successively no_ws_pair t"
  using replace_ws_successively [of t] assms by simp

lemma takeWhile_ws_short:
  "successively no_ws_pair t \<Longrightarrow> length (takeWhile isWhiteSpace t) \<le> 1"
proof (cases t)
  case Nil
  then show ?thesis by simp
next
  case (Cons c cs)
  assume "successively no_ws_pair t"
  with Cons show ?thesis by (cases cs) auto
qed

lemma length_dropWhile_ws:
  assumes "successively no_ws_pair t"
  shows "length t \<le> length (dropWhile isWhiteSpace t) + 1"
proof -
  have "length (takeWhile isWhiteSpace t) + length (dropWhile isWhiteSpace t) = length t"
    by (metis length_append takeWhile_dropWhile_id)
  with takeWhile_ws_short [OF assms] show ?thesis by simp
qed

lemma successively_dropWhile: "successively P t \<Longrightarrow> successively P (dropWhile Q t)"
proof -
  assume "successively P t"
  then have "successively P (takeWhile Q t @ dropWhile Q t)" by simp
  then show ?thesis by (simp only: successively_append_iff)
qed

lemma length_trim_ge:
  assumes "successively no_ws_pair t"
  shows "length t \<le> length (trim t) + 2"
proof -
  let ?d = "dropWhile isWhiteSpace t"
  have "successively no_ws_pair ?d" using assms by (rule successively_dropWhile)
  moreover have "(\<lambda>x y. no_ws_pair y x) = no_ws_pair" by (intro ext) auto
  ultimately have "successively no_ws_pair (rev ?d)" by (simp only: successively_rev)
  then have "length (rev ?d) \<le> length (dropWhile isWhiteSpace (rev ?d)) + 1"
    by (rule length_dropWhile_ws)
  moreover have "length t \<le> length ?d + 1" using assms by (rule length_dropWhile_ws)
  ultimately show ?thesis by (simp add: trim_def)
qed

lemma length_trim_le: "length (trim t) \<le> length t"
proof -
  have "length (dropWhile isWhiteSpace (rev (dropWhile isWhiteSpace t)))
          \<le> length (rev (dropWhile isWhiteSpace t))"
    by (rule length_dropWhile_le)
  then have "length (trim t) \<le> length (rev (dropWhile isWhiteSpace t))"
    by (simp add: trim_def)
  also have "\<dots> \<le> length t" by (simp add: length_dropWhile_le)
  finally show ?thesis .
qed

lemma trim_ends:
  assumes "trim s \<noteq> []"
  shows "\<not> isWhiteSpace (hd (trim s)) \<and> \<not> isWhiteSpace (last (trim s))"
proof -
  let ?d = "dropWhile isWhiteSpace s"
  let ?e = "dropWhile isWhiteSpace (rev ?d)"
  have e: "?e \<noteq> []" using assms by (simp add: trim_def)
  then have l: "\<not> isWhiteSpace (hd ?e)" by (rule hd_dropWhile)
  have "last (trim s) = hd ?e" using e by (simp add: trim_def last_rev)
  with l have "\<not> isWhiteSpace (last (trim s))" by simp
  moreover have "\<not> isWhiteSpace (hd (trim s))"
  proof -
    have dne: "?d \<noteq> []"
    proof
      assume "?d = []"
      then have "?e = []" by (simp only: rev.simps dropWhile.simps)
      with e show False ..
    qed
    then have hd_d: "\<not> isWhiteSpace (hd ?d)" by (rule hd_dropWhile)
    have "\<exists>ys. ?d = rev ?e @ ys"
      by (metis rev_append rev_rev_ident takeWhile_dropWhile_id)
    then obtain ys where "?d = trim s @ ys" by (auto simp: trim_def)
    with assms have "hd ?d = hd (trim s)" by (metis hd_append2)
    with hd_d show ?thesis by simp
  qed
  ultimately show ?thesis by simp
qed

lemma estimateTokens_eq_spec: "estimateTokens t = estimate_spec t"
  by (simp add: estimateTokens_def estimate_spec_def trim_def Let_def)

lemma estimateTokens_div: "estimateTokens t = int ((length (trim (replace_ws t)) + 3) div 4)"
proof (cases "trim (replace_ws t) = []")
  case True
  then show ?thesis by (simp add: estimateTokens_def Let_def)
next
  case False
  then have "0 < length (trim (replace_ws t))" by simp
  then have "1 \<le> (length (trim (replace_ws t)) + 3) div 4" by arith
  moreover from False have "t \<noteq> []" by (auto simp: trim_def)
  ultimately show ?thesis using False
    by (simp add: estimateTokens_def Let_def ceiling_quarter)
qed

lemma estimateTokens_4k:
  assumes "0 < k" "length t = 4 * k" "replace_ws t = t"
  shows "estimateTokens t = int k"
proof -
  have "successively no_ws_pair t" using assms(3) by (rule replace_ws_fixed)
  then have "length t \<le> length (trim t) + 2" by (rule length_trim_ge)
  moreover have "length (trim t) \<le> length t" by (rule length_trim_le)
  ultimately have "(length (trim t) + 3) div 4 = k" using assms(1,2) by simp
  then show ?thesis using assms(3) by (simp add: estimateTokens_div)
qed

lemma collapse_spec_ws:
  "isWhiteSpace c \<Longrightarrow> collapse_spec (c # cs) = SP # collapse_spec (dropWhile isWhiteSpace cs)"
proof (induction cs arbitrary: c)
  case Nil
  then show ?case by simp
next
  case (Cons d ds)
  show ?case
  proof (cases "isWhiteSpace d")
    case True
    with Cons.prems have "collapse_spec (c # d # ds) = collapse_spec (d # ds)" by simp
    also have "\<dots> = SP # collapse_spec (dropWhile isWhiteSpace ds)" using True by (rule Cons.IH)
    finally show ?thesis using True by simp
  next
    case False
    with Cons.prems show ?thesis by simp
  qed
qed

lemma collapse_spec_other:
  "\<not> isWhiteSpace c \<Longrightarrow> collapse_spec (c # cs) = c # collapse_spec cs"
  by (cases cs) simp_all

lemma replace_ws_collapse_spec: "replace_ws t = collapse_spec t"
proof (induction t rule: replace_ws.induct)
  case 1
  show ?case by simp
next
  case (2 c cs)
  show ?case
  proof (cases "isWhiteSpace c")
    case True
    with 2(1) show ?thesis by (simp add: collapse_spec_ws del: collapse_spec.simps)
  next
    case False
    with 2(2) show ?thesis by (simp add: collapse_spec_other del: collapse_spec.simps)
  qed
qed

text \<open>
  Claim C1. For every string, the estimator is the function of the specification: the
  whitespace is normalised, an empty result gives 0, and any other result gives the ceiling
  of a quarter of its length, which is at least 1. Collapsing is the replacement of every
  run of whitespace by one space, unit by unit as the specification words it: it leaves
  no two adjacent whitespace units, turns every whitespace unit into one space, keeps all
  other units in order, and leaves no whitespace at either end. The empty string gives 0, the string
  \<^verbatim>\<open>a\<close> gives 1, and a text of length \<open>4 * k\<close> with \<open>k\<close> positive that collapsing leaves
  unchanged gives \<open>k\<close>. The estimator is a total function: it has a value on every string
  and no error result, also where the handler calls it on a string of a request.
\<close>

theorem estimateTokens_spec:
  "estimateTokens t = estimate_spec t
   \<and> estimateTokens t = int ((length (trim (replace_ws t)) + 3) div 4)
   \<and> 0 \<le> estimateTokens t
   \<and> (trim (replace_ws t) \<noteq> [] \<longrightarrow> 1 \<le> estimateTokens t)
   \<and> replace_ws t = collapse_spec t
   \<and> successively no_ws_pair (replace_ws t)
   \<and> (\<forall>c\<in>set (replace_ws t). isWhiteSpace c \<longrightarrow> c = SP)
   \<and> filter (\<lambda>c. \<not> isWhiteSpace c) (replace_ws t) = filter (\<lambda>c. \<not> isWhiteSpace c) t
   \<and> (trim s \<noteq> [] \<longrightarrow> \<not> isWhiteSpace (hd (trim s)) \<and> \<not> isWhiteSpace (last (trim s)))
   \<and> estimateTokens [] = 0
   \<and> estimateTokens (js ''a'') = 1
   \<and> (0 < k \<and> length t = 4 * k \<and> replace_ws t = t \<longrightarrow> estimateTokens t = int k)
   \<and> estimateTokens_value (String t) = Some (estimateTokens t)"
proof -
  have total: "estimateTokens_value (String t) = Some (estimateTokens t)"
    by (simp add: estimateTokens_value_def estimateTokens_def)
  have one: "trim (replace_ws t) \<noteq> [] \<longrightarrow> 1 \<le> estimateTokens t"
  proof
    assume "trim (replace_ws t) \<noteq> []"
    then have "0 < length (trim (replace_ws t))" by simp
    then have "1 \<le> (length (trim (replace_ws t)) + 3) div 4" by arith
    then show "1 \<le> estimateTokens t" by (simp only: estimateTokens_div)
  qed
  have ex: "estimateTokens [] = 0" "estimateTokens (js ''a'') = 1"
    by (simp_all add: eval_defs)
  have sp: "\<forall>c\<in>set (replace_ws t). isWhiteSpace c \<longrightarrow> c = SP"
    using replace_ws_only_SP by blast
  have k: "0 < k \<and> length t = 4 * k \<and> replace_ws t = t \<longrightarrow> estimateTokens t = int k"
    using estimateTokens_4k by blast
  have tr: "trim s \<noteq> [] \<longrightarrow> \<not> isWhiteSpace (hd (trim s)) \<and> \<not> isWhiteSpace (last (trim s))"
    using trim_ends by blast
  from estimateTokens_eq_spec [of t] estimateTokens_div [of t] estimateTokens_nonneg [of t]
    one replace_ws_collapse_spec [of t] replace_ws_successively [of t] sp
    replace_ws_keeps_text [of t] tr ex k total
  show ?thesis by (intro conjI)
qed

text \<open>
  The estimator on \<^verbatim>\<open>" ab   cd efgh ijkl "\<close>, whose normal form has 15 units, and on
  the eight units \<^verbatim>\<open>"ab cdefg"\<close>, which collapsing leaves unchanged; and on five
  letters with a tab between each two, whose normal form has 9 units.
\<close>

theorem estimateTokens_spec_witness:
  "trim (replace_ws (js '' ab   cd efgh ijkl '')) = js ''ab cd efgh ijkl''
   \<and> estimateTokens (js '' ab   cd efgh ijkl '') = 4
   \<and> trim (js '' ab '') = js ''ab''
   \<and> (0::nat) < 2 \<and> length (js ''ab cdefg'') = 4 * 2
   \<and> replace_ws (js ''ab cdefg'') = js ''ab cdefg''
   \<and> estimateTokens (js ''ab cdefg'') = 2
   \<and> replace_ws [0x61, 0x09, 0x62, 0x09, 0x63, 0x09, 0x64, 0x09, 0x65]
       = js ''a b c d e''
   \<and> estimateTokens [0x61, 0x09, 0x62, 0x09, 0x63, 0x09, 0x64, 0x09, 0x65] = 3"
  using estimateTokens_spec [of "js '' ab   cd efgh ijkl ''" "js '' ab ''" 2]
    estimateTokens_spec [of "js ''ab cdefg''" "js '' ab ''" 2]
    estimateTokens_spec [of "[0x61, 0x09, 0x62, 0x09, 0x63, 0x09, 0x64, 0x09, 0x65]" "js '' ab ''" 2]
  by (simp add: eval_defs)


section \<open>Numbers\<close>

lemma kwh_per_token_value: "kwh_per_token = Fin (0.0003 / 1000)"
  by (simp add: kwh_per_token_def)

lemma js_sub_Fin [simp]: "js_sub (Fin a) (Fin b) = Fin (a - b)"
  by (simp add: js_sub_def)

lemma js_max_zero_not_negative: "\<not> js_less (js_max (Fin 0) v) (Fin 0)"
  by (cases v) simp_all

lemma js_max_zero_cases: "js_max (Fin 0) v = NaN \<or> js_max (Fin 0) v = PInf
    \<or> (\<exists>a. 0 \<le> a \<and> js_max (Fin 0) v = Fin a)"
  by (cases v) simp_all

lemma js_mul_not_negative:
  assumes "\<not> js_less a (Fin 0)" and "\<not> js_less b (Fin 0)"
  shows "\<not> js_less (js_mul a b) (Fin 0)"
proof (cases a)
  case (Fin r)
  note a = this
  show ?thesis
  proof (cases b)
    case (Fin s)
    with a assms have "0 \<le> r" "0 \<le> s" by simp_all
    then have "0 \<le> r * s" by (rule mult_nonneg_nonneg)
    with a Fin show ?thesis by simp
  next
    case PInf
    with a assms show ?thesis by (simp add: signed_inf_def sgn_real_def)
  qed (use a assms in simp_all)
next
  case PInf
  note a = this
  show ?thesis
  proof (cases b)
    case (Fin s)
    with a assms show ?thesis by (simp add: signed_inf_def sgn_real_def)
  qed (use a assms in \<open>simp_all add: signed_inf_def\<close>)
qed (use assms in simp_all)

lemma or_default_cases:
  "or_default NaN d = d"
  "or_default (Fin 0) d = d"
  "r \<noteq> 0 \<Longrightarrow> or_default (Fin r) d = Fin r"
  "or_default PInf d = PInf"
  "or_default NInf d = NInf"
  by (simp_all add: or_default_def)

lemma GRID_cases:
  "grid_env x = NaN \<Longrightarrow> GRID_KGCO2_PER_KWH x = Fin 0.45"
  "grid_env x = Fin 0 \<Longrightarrow> GRID_KGCO2_PER_KWH x = Fin 0.45"
  "grid_env x = Fin r \<Longrightarrow> r \<noteq> 0 \<Longrightarrow> GRID_KGCO2_PER_KWH x = Fin r"
  "grid_env x = PInf \<Longrightarrow> GRID_KGCO2_PER_KWH x = PInf"
  "grid_env x = NInf \<Longrightarrow> GRID_KGCO2_PER_KWH x = NInf"
  by (simp_all add: GRID_KGCO2_PER_KWH_def or_default_cases)

lemma GRID_nonzero: "GRID_KGCO2_PER_KWH x \<noteq> Fin 0" "GRID_KGCO2_PER_KWH x \<noteq> NaN"
  by (cases "grid_env x"; simp add: GRID_KGCO2_PER_KWH_def or_default_def)+

lemma GRID_guard:
  "\<not> js_less (Fin 0) (GRID_KGCO2_PER_KWH x)
     \<longleftrightarrow> grid_env x = NInf \<or> (\<exists>r. r < 0 \<and> grid_env x = Fin r)"
  by (cases "grid_env x") (auto simp: GRID_KGCO2_PER_KWH_def or_default_def)

lemma savings_formula:
  "savings g tb ta =
     (js_max (Fin 0) (js_sub tb ta),
      js_mul (js_max (Fin 0) (js_sub tb ta)) (Fin (0.0003 / 1000)),
      js_mul (js_mul (js_max (Fin 0) (js_sub tb ta)) (Fin (0.0003 / 1000))) g)"
  by (simp add: savings_def kwh_per_token_value Let_def)

lemma savings_finite:
  "savings g (Fin a) (Fin b) =
     (Fin (max 0 (a - b)), Fin (max 0 (a - b) * (0.0003 / 1000)),
      js_mul (Fin (max 0 (a - b) * (0.0003 / 1000))) g)"
  by (simp add: savings_formula)

lemma savings_not_negative:
  "\<not> js_less (fst (savings g tb ta)) (Fin 0)"
  "\<not> js_less (fst (snd (savings g tb ta))) (Fin 0)"
  "\<not> js_less g (Fin 0) \<Longrightarrow> \<not> js_less (snd (snd (savings g tb ta))) (Fin 0)"
proof -
  have k: "\<not> js_less (Fin (0.0003 / 1000)) (Fin 0)" by simp
  show 1: "\<not> js_less (fst (savings g tb ta)) (Fin 0)"
    by (simp add: savings_formula js_max_zero_not_negative)
  show 2: "\<not> js_less (fst (snd (savings g tb ta))) (Fin 0)"
    using js_mul_not_negative [OF js_max_zero_not_negative k]
    by (simp add: savings_formula del: js_less.simps)
  show "\<not> js_less (snd (snd (savings g tb ta))) (Fin 0)" if "\<not> js_less g (Fin 0)"
    using js_mul_not_negative [OF js_mul_not_negative [OF js_max_zero_not_negative k] that]
    by (simp add: savings_formula del: js_less.simps)
qed


section \<open>The optimize handler and the store\<close>

lemma estimateTokens_value_cases:
  "estimateTokens_value v = Some i \<Longrightarrow>
     (\<not> truthy v \<and> i = 0) \<or> (\<exists>s. v = String s \<and> s \<noteq> [] \<and> i = estimateTokens s)"
  by (cases v) (auto simp: estimateTokens_value_def split: if_splits)

lemma estimateTokens_value_String: "estimateTokens_value (String s) = Some (estimateTokens s)"
  by (simp add: estimateTokens_value_def estimateTokens_def)

lemma estimateTokens_value_nonneg: "estimateTokens_value v = Some i \<Longrightarrow> 0 \<le> i"
  using estimateTokens_value_cases [of v i] estimateTokens_nonneg by auto

lemma optimize_rejects:
  "\<not> truthy (b_prompt (optimize_fields b)) \<Longrightarrow>
     optimize x db tok b = (reply 400 (Message ''prompt required''), db)"
  by (simp add: optimize_def)

text \<open>The values that the handler binds, and the row and the response that it builds.\<close>

lemma optimize_writes:
  assumes "truthy (b_prompt (optimize_fields b))"
    and "tokens_before_of (optimize_fields b) = Some tb"
    and "tokens_after_of (optimize_fields b) tb = Some ta"
    and "sqlite_text x (b_prompt (optimize_fields b)) = Some pt"
    and "sqlite_text x (if truthy (b_optimized_prompt (optimize_fields b))
                        then b_optimized_prompt (optimize_fields b) else String []) = Some ot"
    and "tb \<noteq> NaN" and "ta \<noteq> NaN"
    and "fst (savings (GRID_KGCO2_PER_KWH x) tb ta) \<noteq> NaN"
    and "snd (snd (savings (GRID_KGCO2_PER_KWH x) tb ta)) \<noteq> NaN"
  shows "optimize x db tok b =
     (reply 200 (OptimizeJson
        \<lparr>res_id = optimizations_seq db + 1,
         res_user_id = map_option user_ident (getUserFromToken x db tok),
         res_tokens_before = to_json tb,
         res_tokens_after = to_json ta,
         res_tokens_saved = to_json (fst (savings (GRID_KGCO2_PER_KWH x) tb ta)),
         res_kwh_saved = to_json (fst (snd (savings (GRID_KGCO2_PER_KWH x) tb ta))),
         res_co2_saved_kg = to_json (snd (snd (savings (GRID_KGCO2_PER_KWH x) tb ta)))\<rparr>),
      db\<lparr>optimizations := optimizations db @
           [\<lparr>oid = optimizations_seq db + 1,
             user_id = map_option user_ident (getUserFromToken x db tok),
             prompt = pt, optimized_prompt = ot,
             tokens_before = tb, tokens_after = ta,
             tokens_saved = fst (savings (GRID_KGCO2_PER_KWH x) tb ta),
             co2_saved_kg = snd (snd (savings (GRID_KGCO2_PER_KWH x) tb ta))\<rparr>],
         optimizations_seq := optimizations_seq db + 1\<rparr>)"
proof -
  obtain ts kwh co2 where s: "savings (GRID_KGCO2_PER_KWH x) tb ta = (ts, kwh, co2)"
    by (cases "savings (GRID_KGCO2_PER_KWH x) tb ta") auto
  with assms show ?thesis
    by (simp add: optimize_def optimize_try_def insert_optimization_def Let_def map_option_case
          split: option.splits)
qed

lemma optimize_status:
  "status (fst (optimize x db tok b)) = 200 \<or>
   optimize x db tok b = (reply 400 (Message ''prompt required''), db) \<or>
   optimize x db tok b = (reply 500 (Message ''Server error''), db)"
  by (auto simp: optimize_def optimize_try_def insert_optimization_def Let_def reply_def
        split: prod.splits option.splits if_splits)

lemma optimize_200:
  assumes "status (fst (optimize x db tok b)) = 200"
  shows "\<exists>tb ta pt ot.
      truthy (b_prompt (optimize_fields b))
    \<and> tokens_before_of (optimize_fields b) = Some tb
    \<and> tokens_after_of (optimize_fields b) tb = Some ta
    \<and> sqlite_text x (b_prompt (optimize_fields b)) = Some pt
    \<and> sqlite_text x (if truthy (b_optimized_prompt (optimize_fields b))
                        then b_optimized_prompt (optimize_fields b) else String []) = Some ot
    \<and> tb \<noteq> NaN \<and> ta \<noteq> NaN
    \<and> fst (savings (GRID_KGCO2_PER_KWH x) tb ta) \<noteq> NaN
    \<and> snd (snd (savings (GRID_KGCO2_PER_KWH x) tb ta)) \<noteq> NaN"
  using assms
  by (auto simp: optimize_def optimize_try_def insert_optimization_def Let_def reply_def
        split: prod.splits option.splits if_splits)

lemma optimize_unchanged:
  "status (fst (optimize x db tok b)) \<noteq> 200 \<Longrightarrow> snd (optimize x db tok b) = db"
  using optimize_status [of x db tok b] by auto

lemma optimize_table:
  assumes "status (fst (optimize x db tok b)) = 200"
  shows "optimizations (snd (optimize x db tok b)) = optimizations db @ [stored_row x db tok b]"
    and "optimizations_seq (snd (optimize x db tok b)) = optimizations_seq db + 1"
    and "users (snd (optimize x db tok b)) = users db"
    and "users_seq (snd (optimize x db tok b)) = users_seq db"
proof -
  from optimize_200 [OF assms] obtain tb ta pt ot where
    "truthy (b_prompt (optimize_fields b))"
    "tokens_before_of (optimize_fields b) = Some tb"
    "tokens_after_of (optimize_fields b) tb = Some ta"
    "sqlite_text x (b_prompt (optimize_fields b)) = Some pt"
    "sqlite_text x (if truthy (b_optimized_prompt (optimize_fields b))
                        then b_optimized_prompt (optimize_fields b) else String []) = Some ot"
    "tb \<noteq> NaN" "ta \<noteq> NaN"
    "fst (savings (GRID_KGCO2_PER_KWH x) tb ta) \<noteq> NaN"
    "snd (snd (savings (GRID_KGCO2_PER_KWH x) tb ta)) \<noteq> NaN"
    by blast
  note w = optimize_writes [OF this, of db tok]
  show "optimizations (snd (optimize x db tok b)) = optimizations db @ [stored_row x db tok b]"
    and "optimizations_seq (snd (optimize x db tok b)) = optimizations_seq db + 1"
    and "users (snd (optimize x db tok b)) = users db"
    and "users_seq (snd (optimize x db tok b)) = users_seq db"
    by (simp_all add: w)
qed

lemma optimize_row:
  assumes "status (fst (optimize x db tok b)) = 200"
  shows "oid (stored_row x db tok b) = optimizations_seq db + 1"
    and "user_id (stored_row x db tok b) = map_option user_ident (getUserFromToken x db tok)"
    and "tokens_before_of (optimize_fields b) = Some (tokens_before (stored_row x db tok b))"
    and "tokens_after_of (optimize_fields b) (tokens_before (stored_row x db tok b)) =
           Some (tokens_after (stored_row x db tok b))"
    and "sqlite_text x (b_prompt (optimize_fields b)) = Some (prompt (stored_row x db tok b))"
    and "sqlite_text x (if truthy (b_optimized_prompt (optimize_fields b))
                        then b_optimized_prompt (optimize_fields b) else String []) =
           Some (optimized_prompt (stored_row x db tok b))"
    and "tokens_saved (stored_row x db tok b) =
           js_max (Fin 0) (js_sub (tokens_before (stored_row x db tok b))
                             (tokens_after (stored_row x db tok b)))"
    and "co2_saved_kg (stored_row x db tok b) =
           js_mul (js_mul (tokens_saved (stored_row x db tok b)) (Fin (0.0003 / 1000)))
             (GRID_KGCO2_PER_KWH x)"
    and "tokens_before (stored_row x db tok b) \<noteq> NaN"
    and "tokens_after (stored_row x db tok b) \<noteq> NaN"
    and "tokens_saved (stored_row x db tok b) \<noteq> NaN"
    and "co2_saved_kg (stored_row x db tok b) \<noteq> NaN"
    and "truthy (b_prompt (optimize_fields b))"
proof -
  from optimize_200 [OF assms] obtain tb ta pt ot where h:
    "truthy (b_prompt (optimize_fields b))"
    "tokens_before_of (optimize_fields b) = Some tb"
    "tokens_after_of (optimize_fields b) tb = Some ta"
    "sqlite_text x (b_prompt (optimize_fields b)) = Some pt"
    "sqlite_text x (if truthy (b_optimized_prompt (optimize_fields b))
                        then b_optimized_prompt (optimize_fields b) else String []) = Some ot"
    "tb \<noteq> NaN" "ta \<noteq> NaN"
    "fst (savings (GRID_KGCO2_PER_KWH x) tb ta) \<noteq> NaN"
    "snd (snd (savings (GRID_KGCO2_PER_KWH x) tb ta)) \<noteq> NaN"
    by blast
  note w = optimize_writes [OF h, of db tok]
  show "oid (stored_row x db tok b) = optimizations_seq db + 1"
    and "user_id (stored_row x db tok b) = map_option user_ident (getUserFromToken x db tok)"
    and "tokens_before_of (optimize_fields b) = Some (tokens_before (stored_row x db tok b))"
    and "tokens_after_of (optimize_fields b) (tokens_before (stored_row x db tok b)) =
           Some (tokens_after (stored_row x db tok b))"
    and "sqlite_text x (b_prompt (optimize_fields b)) = Some (prompt (stored_row x db tok b))"
    and "sqlite_text x (if truthy (b_optimized_prompt (optimize_fields b))
                        then b_optimized_prompt (optimize_fields b) else String []) =
           Some (optimized_prompt (stored_row x db tok b))"
    and "tokens_before (stored_row x db tok b) \<noteq> NaN"
    and "tokens_after (stored_row x db tok b) \<noteq> NaN"
    and "tokens_saved (stored_row x db tok b) \<noteq> NaN"
    and "co2_saved_kg (stored_row x db tok b) \<noteq> NaN"
    and "truthy (b_prompt (optimize_fields b))"
    using h by (simp_all add: w)
  show "tokens_saved (stored_row x db tok b) =
           js_max (Fin 0) (js_sub (tokens_before (stored_row x db tok b))
                             (tokens_after (stored_row x db tok b)))"
    and "co2_saved_kg (stored_row x db tok b) =
           js_mul (js_mul (tokens_saved (stored_row x db tok b)) (Fin (0.0003 / 1000)))
             (GRID_KGCO2_PER_KWH x)"
    by (simp_all add: w savings_formula)
qed

lemma optimize_reply:
  assumes "status (fst (optimize x db tok b)) = 200"
  shows "fst (optimize x db tok b) =
     reply 200 (OptimizeJson
        \<lparr>res_id = oid (stored_row x db tok b),
         res_user_id = user_id (stored_row x db tok b),
         res_tokens_before = to_json (tokens_before (stored_row x db tok b)),
         res_tokens_after = to_json (tokens_after (stored_row x db tok b)),
         res_tokens_saved = to_json (tokens_saved (stored_row x db tok b)),
         res_kwh_saved =
           to_json (js_mul (tokens_saved (stored_row x db tok b)) (Fin (0.0003 / 1000))),
         res_co2_saved_kg = to_json (co2_saved_kg (stored_row x db tok b))\<rparr>)"
proof -
  from optimize_200 [OF assms] obtain tb ta pt ot where h:
    "truthy (b_prompt (optimize_fields b))"
    "tokens_before_of (optimize_fields b) = Some tb"
    "tokens_after_of (optimize_fields b) tb = Some ta"
    "sqlite_text x (b_prompt (optimize_fields b)) = Some pt"
    "sqlite_text x (if truthy (b_optimized_prompt (optimize_fields b))
                        then b_optimized_prompt (optimize_fields b) else String []) = Some ot"
    "tb \<noteq> NaN" "ta \<noteq> NaN"
    "fst (savings (GRID_KGCO2_PER_KWH x) tb ta) \<noteq> NaN"
    "snd (snd (savings (GRID_KGCO2_PER_KWH x) tb ta)) \<noteq> NaN"
    by blast
  show ?thesis by (simp add: optimize_writes [OF h, of db tok] savings_formula)
qed

text \<open>One request changes the optimizations table by at most one appended row.\<close>

lemma signup_optimizations:
  "optimizations (snd (signup x db b)) = optimizations db"
  "optimizations_seq (snd (signup x db b)) = optimizations_seq db"
  by (auto simp: signup_def insert_user_def reply_def Let_def
        split: option.splits prod.splits if_splits)

lemma login_db: "snd (login x db b) = db"
  by (auto simp: login_def Let_def split: option.splits prod.splits)

lemma me_db: "snd (me x db t) = db"
  by (auto simp: me_def split: option.splits)

lemma stats_db: "snd (stats x db) = db"
  by (simp add: stats_def Let_def)

lemma handle_step:
  "(optimizations (snd (handle x db r)) = optimizations db
      \<and> optimizations_seq (snd (handle x db r)) = optimizations_seq db) \<or>
   (\<exists>row. optimizations (snd (handle x db r)) = optimizations db @ [row] \<and>
          optimizations_seq (snd (handle x db r)) = optimizations_seq db + 1 \<and>
          oid row = optimizations_seq db + 1 \<and>
          tokens_saved row =
            js_max (Fin 0) (js_sub (tokens_before row) (tokens_after row)) \<and>
          co2_saved_kg row =
            js_mul (js_mul (tokens_saved row) (Fin (0.0003 / 1000))) (GRID_KGCO2_PER_KWH x) \<and>
          tokens_before row \<noteq> NaN \<and> tokens_after row \<noteq> NaN \<and>
          tokens_saved row \<noteq> NaN \<and> co2_saved_kg row \<noteq> NaN)"
proof (cases r)
  case (Signup b)
  then show ?thesis by (simp add: signup_optimizations)
next
  case (Login b)
  then show ?thesis by (simp add: login_db)
next
  case (Me t)
  then show ?thesis by (simp add: me_db)
next
  case Logout
  then show ?thesis by (simp add: logout_def)
next
  case (Optimize tok b)
  show ?thesis
  proof (cases "status (fst (optimize x db tok b)) = 200")
    case False
    then have "snd (optimize x db tok b) = db" by (rule optimize_unchanged)
    then show ?thesis unfolding Optimize handle.simps by simp
  next
    case True
    note t = optimize_table [OF True] and w = optimize_row [OF True]
    show ?thesis unfolding Optimize handle.simps
      using t(1,2) w(1,7,8,9,10,11,12) by blast
  qed
next
  case Stats
  then show ?thesis by (simp add: stats_db)
next
  case Health
  then show ?thesis by (simp add: health_def)
qed

lemma run_append_only: "prefix (optimizations db) (optimizations (run x db rs))"
proof (induction rs arbitrary: db)
  case Nil
  show ?case by simp
next
  case (Cons r rs)
  have "prefix (optimizations db) (optimizations (snd (handle x db r)))"
    using handle_step [of x db r] by (elim disjE exE conjE) simp_all
  also have "prefix \<dots> (optimizations (run x (snd (handle x db r)) rs))" by (rule Cons.IH)
  finally show ?case by simp
qed

lemma run_derived:
  assumes "\<forall>r\<in>set (optimizations db).
             tokens_saved r = js_max (Fin 0) (js_sub (tokens_before r) (tokens_after r)) \<and>
             co2_saved_kg r =
               js_mul (js_mul (tokens_saved r) (Fin (0.0003 / 1000))) (GRID_KGCO2_PER_KWH x) \<and>
             tokens_before r \<noteq> NaN \<and> tokens_after r \<noteq> NaN \<and>
             tokens_saved r \<noteq> NaN \<and> co2_saved_kg r \<noteq> NaN"
  shows "\<forall>r\<in>set (optimizations (run x db rs)).
             tokens_saved r = js_max (Fin 0) (js_sub (tokens_before r) (tokens_after r)) \<and>
             co2_saved_kg r =
               js_mul (js_mul (tokens_saved r) (Fin (0.0003 / 1000))) (GRID_KGCO2_PER_KWH x) \<and>
             tokens_before r \<noteq> NaN \<and> tokens_after r \<noteq> NaN \<and>
             tokens_saved r \<noteq> NaN \<and> co2_saved_kg r \<noteq> NaN"
  using assms
proof (induction rs arbitrary: db)
  case Nil
  then show ?case unfolding run.simps .
next
  case (Cons q rs)
  have "\<forall>r\<in>set (optimizations (snd (handle x db q))).
             tokens_saved r = js_max (Fin 0) (js_sub (tokens_before r) (tokens_after r)) \<and>
             co2_saved_kg r =
               js_mul (js_mul (tokens_saved r) (Fin (0.0003 / 1000))) (GRID_KGCO2_PER_KWH x) \<and>
             tokens_before r \<noteq> NaN \<and> tokens_after r \<noteq> NaN \<and>
             tokens_saved r \<noteq> NaN \<and> co2_saved_kg r \<noteq> NaN"
    using handle_step [of x db q] Cons.prems by (elim disjE exE conjE) auto
  then have "\<forall>r\<in>set (optimizations (run x (snd (handle x db q)) rs)).
             tokens_saved r = js_max (Fin 0) (js_sub (tokens_before r) (tokens_after r)) \<and>
             co2_saved_kg r =
               js_mul (js_mul (tokens_saved r) (Fin (0.0003 / 1000))) (GRID_KGCO2_PER_KWH x) \<and>
             tokens_before r \<noteq> NaN \<and> tokens_after r \<noteq> NaN \<and>
             tokens_saved r \<noteq> NaN \<and> co2_saved_kg r \<noteq> NaN"
    by (rule Cons.IH)
  then show ?case unfolding run.simps .
qed

lemma run_ids:
  assumes "\<forall>r\<in>set (optimizations db). oid r \<le> optimizations_seq db"
  shows "\<forall>r\<in>set (optimizations (run x db rs)). oid r \<le> optimizations_seq (run x db rs)"
  using assms
proof (induction rs arbitrary: db)
  case Nil
  then show ?case by simp
next
  case (Cons q rs)
  have "\<forall>r\<in>set (optimizations (snd (handle x db q))).
           oid r \<le> optimizations_seq (snd (handle x db q))"
    using handle_step [of x db q] Cons.prems by (elim disjE exE conjE) auto
  then have "\<forall>r\<in>set (optimizations (run x (snd (handle x db q)) rs)).
           oid r \<le> optimizations_seq (run x (snd (handle x db q)) rs)"
    by (rule Cons.IH)
  then show ?case by simp
qed

lemma select_user_by_email_None:
  "select_user_by_email db e = None \<longleftrightarrow> e \<notin> email ` set (users db)"
  by (auto simp: select_user_by_email_def find_None_iff)


section \<open>The token counts\<close>

lemma of_int_in_Nats: "0 \<le> z \<Longrightarrow> (of_int z :: real) \<in> \<nat>"
proof -
  assume "0 \<le> z"
  then have "(of_int z :: real) = of_nat (nat z)" by simp
  then show ?thesis by (simp only: of_nat_in_Nats)
qed

lemma floor_fifth: "\<lfloor>real n * 0.2\<rfloor> = int (n div 5)"
proof -
  have "real n * 0.2 = real n / real 5" by simp
  then have "\<lfloor>real n * 0.2\<rfloor> = \<lfloor>real n / real 5\<rfloor>" by simp
  also have "\<dots> = int (n div 5)" by (rule floor_divide_of_nat_eq)
  finally show ?thesis .
qed

lemma default_after_Nats:
  assumes "(tb::real) \<in> \<nat>"
  shows "max 0 (tb - max 0 (of_int \<lfloor>tb * 0.2\<rfloor>)) \<in> \<nat>"
proof -
  from assms obtain n where tb: "tb = real n" by (auto simp: Nats_def)
  have "n div 5 \<le> n" by simp
  then have "max 0 (tb - max 0 (of_int \<lfloor>tb * 0.2\<rfloor>)) = real (n - n div 5)"
    unfolding tb floor_fifth by (simp add: of_nat_diff)
  then show ?thesis by (simp only: of_nat_in_Nats)
qed

lemma default_after_of_nonneg:
  assumes "0 \<le> (tb::real)"
  shows "max 0 (tb - max 0 (of_int \<lfloor>tb * 0.2\<rfloor>)) = tb - of_int \<lfloor>tb * 0.2\<rfloor>"
proof -
  have "0 \<le> tb * 0.2" using assms by simp
  then have f0: "0 \<le> \<lfloor>tb * 0.2\<rfloor>" by (simp only: zero_le_floor)
  have "of_int \<lfloor>tb * 0.2\<rfloor> \<le> tb * 0.2" by (rule of_int_floor_le)
  also have "\<dots> \<le> tb" using assms by simp
  finally have "of_int \<lfloor>tb * 0.2\<rfloor> \<le> tb" .
  with f0 show ?thesis by simp
qed

lemma default_after_of_neg:
  assumes "(tb::real) < 0"
  shows "max 0 (tb - max 0 (of_int \<lfloor>tb * 0.2\<rfloor>)) = 0"
proof -
  have "tb * 0.2 < 0" using assms by simp
  then have "\<lfloor>tb * 0.2\<rfloor> < 0" by (simp only: floor_less_zero)
  then have "max 0 (of_int \<lfloor>tb * 0.2\<rfloor> :: real) = 0" by simp
  with assms show ?thesis by simp
qed

lemma floor_fifth_pos: "0 < \<lfloor>(tb::real) * 0.2\<rfloor> \<longleftrightarrow> 5 \<le> tb"
proof -
  have "0 < \<lfloor>tb * 0.2\<rfloor> \<longleftrightarrow> 1 \<le> \<lfloor>tb * 0.2\<rfloor>" by linarith
  also have "\<dots> \<longleftrightarrow> 1 \<le> tb * 0.2" by (simp only: one_le_floor)
  also have "\<dots> \<longleftrightarrow> 5 \<le> tb" by simp
  finally show ?thesis .
qed

lemma saved_Nats:
  assumes "(a::real) \<in> \<nat>" and "b \<in> \<nat>"
  shows "max 0 (a - b) \<in> \<nat>"
proof -
  from assms obtain m n where "a = real m" "b = real n" by (auto simp: Nats_def)
  then have "max 0 (a - b) = real (m - n)" by (simp add: of_nat_diff max_def)
  then show ?thesis by (simp only: of_nat_in_Nats)
qed

lemma is_number_iff: "is_number v \<longleftrightarrow> (\<exists>n. v = Number n)"
  by (cases v) simp_all

lemma is_string_iff: "is_string v \<longleftrightarrow> (\<exists>s. v = String s)"
  by (cases v) simp_all

text \<open>The default of the handler for the count after, on each kind of number.\<close>

lemma default_after_Fin:
  "js_max (Fin 0) (js_sub (Fin a) (js_max (Fin 0) (js_floor (js_mul (Fin a) (Fin 0.2)))))
     = Fin (max 0 (a - max 0 (of_int \<lfloor>a * 0.2\<rfloor>)))"
  by simp

lemma default_after_special:
  "js_max (Fin 0) (js_sub PInf (js_max (Fin 0) (js_floor (js_mul PInf (Fin 0.2))))) = NaN"
  "js_max (Fin 0) (js_sub NInf (js_max (Fin 0) (js_floor (js_mul NInf (Fin 0.2))))) = Fin 0"
  "js_max (Fin 0) (js_sub NaN (js_max (Fin 0) (js_floor (js_mul NaN (Fin 0.2))))) = NaN"
  by (simp_all add: js_sub_def signed_inf_def)

lemma tokens_before_of_number:
  "b_tokens_before f = Number n \<Longrightarrow> tokens_before_of f = Some n"
  by (simp add: tokens_before_of_def)

lemma tokens_before_of_estimated:
  "\<not> is_number (b_tokens_before f) \<Longrightarrow>
     tokens_before_of f = map_option (\<lambda>i. Fin (of_int i)) (estimateTokens_value (b_prompt f))"
  by (cases "b_tokens_before f") (simp_all add: tokens_before_of_def)

lemma tokens_before_of_estimated_Nats:
  assumes "\<not> is_number (b_tokens_before f)" and "tokens_before_of f = Some tb"
  shows "tb \<in> Fin ` \<nat>"
proof -
  from assms obtain i where "estimateTokens_value (b_prompt f) = Some i" "tb = Fin (of_int i)"
    by (auto simp: tokens_before_of_estimated)
  then show ?thesis using estimateTokens_value_nonneg [of "b_prompt f" i]
    by (simp add: of_int_in_Nats)
qed

lemma tokens_after_of_number:
  "b_tokens_after f = Number n \<Longrightarrow> tokens_after_of f tb = Some n"
  by (simp add: tokens_after_of_def)

lemma tokens_after_of_derived:
  "\<not> is_number (b_tokens_after f) \<Longrightarrow>
     tokens_after_of f tb =
       (if truthy (b_optimized_prompt f)
        then map_option (\<lambda>i. Fin (of_int i)) (estimateTokens_value (b_optimized_prompt f))
        else Some (js_max (Fin 0)
                    (js_sub tb (js_max (Fin 0) (js_floor (js_mul tb (Fin 0.2)))))))"
  by (cases "b_tokens_after f") (simp_all add: tokens_after_of_def)

lemma tokens_after_of_derived_nonneg:
  assumes "\<not> is_number (b_tokens_after f)" and "tokens_after_of f tb = Some ta" and "ta \<noteq> NaN"
  shows "\<exists>a. 0 \<le> a \<and> ta = Fin a"
proof (cases "truthy (b_optimized_prompt f)")
  case True
  with assms obtain i where "estimateTokens_value (b_optimized_prompt f) = Some i"
    "ta = Fin (of_int i)"
    by (auto simp: tokens_after_of_derived)
  then show ?thesis using estimateTokens_value_nonneg [of "b_optimized_prompt f" i] by simp
next
  case False
  with assms have ta: "ta = js_max (Fin 0)
                    (js_sub tb (js_max (Fin 0) (js_floor (js_mul tb (Fin 0.2)))))"
    by (simp add: tokens_after_of_derived)
  show ?thesis
  proof (cases tb)
    case (Fin a)
    then show ?thesis unfolding ta by simp
  qed (use ta assms(3) in \<open>simp_all add: js_sub_def signed_inf_def\<close>)
qed

lemma tokens_after_of_derived_Nats:
  assumes "\<not> is_number (b_tokens_after f)" and "tokens_after_of f tb = Some ta"
    and "tb \<in> Fin ` \<nat>"
  shows "ta \<in> Fin ` \<nat>"
proof (cases "truthy (b_optimized_prompt f)")
  case True
  with assms obtain i where "estimateTokens_value (b_optimized_prompt f) = Some i"
    "ta = Fin (of_int i)"
    by (auto simp: tokens_after_of_derived)
  then show ?thesis using estimateTokens_value_nonneg [of "b_optimized_prompt f" i]
    by (simp add: of_int_in_Nats)
next
  case False
  from assms(3) obtain a where a: "tb = Fin a" "a \<in> \<nat>" by auto
  from False assms(1,2) have "ta = Fin (max 0 (a - max 0 (of_int \<lfloor>a * 0.2\<rfloor>)))"
    unfolding a by (simp add: tokens_after_of_derived)
  then show ?thesis using default_after_Nats [OF a(2)] by blast
qed

lemma saved_Nats_number:
  assumes "tb \<in> Fin ` \<nat>" and "ta \<in> Fin ` \<nat>"
  shows "js_max (Fin 0) (js_sub tb ta) \<in> Fin ` \<nat>"
proof -
  from assms obtain a b where "tb = Fin a" "a \<in> \<nat>" "ta = Fin b" "b \<in> \<nat>" by auto
  then show ?thesis using saved_Nats [of a b] by simp
qed

lemma sqlite_text_String: "sqlite_text x (String s) = Some (to_well_formed s)"
  by (simp add: sqlite_text_def)

text \<open>A sufficient condition for the handler to write.\<close>

lemma optimize_accepts:
  assumes "b_prompt f = String p" and "p \<noteq> []"
    and "\<not> truthy (b_optimized_prompt f) \<or> is_string (b_optimized_prompt f)"
    and "b_tokens_before f \<notin> {Number NaN, Number PInf, Number NInf}"
    and "b_tokens_after f \<notin> {Number NaN, Number PInf, Number NInf}"
    and "grid_env x \<notin> {PInf, NInf}"
  shows "status (fst (optimize x db tok (Some f))) = 200"
proof -
  have fields: "optimize_fields (Some f) = f" by (simp add: optimize_fields_def)
  have tr: "truthy (b_prompt f)" using assms(1,2) by simp
  obtain a where tb: "tokens_before_of f = Some (Fin a)"
  proof (cases "is_number (b_tokens_before f)")
    case True
    then obtain n where n: "b_tokens_before f = Number n" by (auto simp: is_number_iff)
    with assms(4) obtain r where "n = Fin r" by (cases n) auto
    with n that show ?thesis by (simp add: tokens_before_of_def)
  next
    case False
    then have "\<exists>a. tokens_before_of f = Some (Fin a)"
      using assms(1,2) by (simp add: tokens_before_of_estimated estimateTokens_value_def)
    with that show ?thesis by blast
  qed
  have est: "\<exists>i. estimateTokens_value (b_optimized_prompt f) = Some i"
    using assms(3)
    by (cases "b_optimized_prompt f") (auto simp: estimateTokens_value_def)
  obtain c where ta: "tokens_after_of f (Fin a) = Some (Fin c)"
  proof (cases "is_number (b_tokens_after f)")
    case True
    then obtain n where n: "b_tokens_after f = Number n" by (auto simp: is_number_iff)
    with assms(5) obtain r where "n = Fin r" by (cases n) auto
    with n that show ?thesis by (simp add: tokens_after_of_def)
  next
    case False
    from est obtain i where "estimateTokens_value (b_optimized_prompt f) = Some i" ..
    then have "\<exists>c. tokens_after_of f (Fin a) = Some (Fin c)"
      by (simp add: tokens_after_of_derived [OF False])
    with that show ?thesis by blast
  qed
  have "\<exists>g. GRID_KGCO2_PER_KWH x = Fin g"
  proof (cases "grid_env x")
    case NaN
    then show ?thesis using GRID_cases(1) by blast
  next
    case (Fin r)
    then show ?thesis using GRID_cases(2,3) [of x] by (cases "r = 0") blast+
  qed (use assms(6) in simp_all)
  then obtain g where g: "GRID_KGCO2_PER_KWH x = Fin g" ..
  have pt: "sqlite_text x (b_prompt f) = Some (to_well_formed p)"
    using assms(1) by (simp add: sqlite_text_def)
  have "\<exists>ot. sqlite_text x (if truthy (b_optimized_prompt f)
                        then b_optimized_prompt f else String []) = Some ot"
  proof (cases "truthy (b_optimized_prompt f)")
    case True
    with assms(3) obtain s where "b_optimized_prompt f = String s" by (auto simp: is_string_iff)
    then show ?thesis by (simp add: sqlite_text_String)
  next
    case False
    then show ?thesis by (simp add: sqlite_text_String)
  qed
  then obtain ot where ot: "sqlite_text x (if truthy (b_optimized_prompt f)
                        then b_optimized_prompt f else String []) = Some ot" ..
  have nn: "Fin a \<noteq> NaN" "Fin c \<noteq> NaN"
    "fst (savings (GRID_KGCO2_PER_KWH x) (Fin a) (Fin c)) \<noteq> NaN"
    "snd (snd (savings (GRID_KGCO2_PER_KWH x) (Fin a) (Fin c))) \<noteq> NaN"
    by (simp_all add: g savings_finite)
  note w = optimize_writes [where b = "Some f", unfolded fields, OF tr tb ta pt ot nn]
  show ?thesis by (simp add: w reply_def)
qed


section \<open>The handlers on the sample data\<close>

lemma well_formed_fixed:
  "\<forall>c\<in>set t. \<not> is_high c \<and> \<not> is_low c \<Longrightarrow> to_well_formed t = t"
  by (induction t rule: to_well_formed.induct) auto

lemma js_unit_small: "(word_of_nat (of_char c) :: code_unit) < 0x100"
proof -
  have "(of_char c :: nat) = of_char c mod 256" by (simp only: of_char_mod_256)
  also have "\<dots> < 256" by (rule mod_less_divisor) simp
  finally have lt: "(of_char c :: nat) < 256" .
  then have "(of_char c :: nat) < 65536" by linarith
  then have "(of_char c :: nat) mod 65536 = of_char c" by (rule mod_less)
  with lt show ?thesis by (simp add: word_less_nat_alt unat_of_nat)
qed

lemma js_well_formed: "to_well_formed (js s) = js s"
proof (rule well_formed_fixed, rule ballI)
  fix c assume "c \<in> set (js s)"
  then obtain d where c: "c = word_of_nat (of_char d)" by (auto simp: js_def)
  have "c < 0x100" unfolding c by (rule js_unit_small)
  then show "\<not> is_high c \<and> \<not> is_low c"
    by (simp add: is_high_def is_low_def word_less_nat_alt word_le_nat_alt)
qed

lemma empty_tables:
  "users empty_db = []" "users_seq empty_db = 0"
  "optimizations empty_db = []" "optimizations_seq empty_db = 0"
  by (simp_all add: empty_db_def)

lemma sample_grid:
  "GRID_KGCO2_PER_KWH (sample_externals NaN) = Fin 0.45"
  "GRID_KGCO2_PER_KWH (sample_externals (Fin 0)) = Fin 0.45"
  "GRID_KGCO2_PER_KWH (sample_externals (Fin (- 1))) = Fin (- 1)"
  "GRID_KGCO2_PER_KWH (sample_externals (Fin 0.2)) = Fin 0.2"
  "GRID_KGCO2_PER_KWH (sample_externals PInf) = PInf"
  "GRID_KGCO2_PER_KWH (sample_externals NInf) = NInf"
  "grid_env (sample_externals g) = g"
  by (simp_all add: GRID_KGCO2_PER_KWH_def or_default_def sample_externals_def)

lemma sample_text:
  "sqlite_text (sample_externals g) (String (js s)) = Some (js s)"
  "sqlite_text (sample_externals g) (Number n) = None"
  by (simp_all add: sqlite_text_def js_well_formed sample_externals_def)

lemma sample_bcrypt:
  "bcrypt_hash (sample_externals g) (String p) = Some (js ''hash:'' @ p)"
  "bcrypt_compare (sample_externals g) (String p) h = Some (h = js ''hash:'' @ p)"
  "bcrypt_compare (sample_externals g) (Number n) h = None"
  "bcrypt_hash (sample_externals g) (Number n) = None"
  by (simp_all add: sample_externals_def)

lemma sample_hash:
  "bcrypt_hash (sample_externals NaN) (String (js ''pw2'')) = Some (js ''hash:pw2'')"
  by (simp add: sample_externals_def js_def)

lemma registered_db_value:
  "registered_db =
     \<lparr>users = [\<lparr>uid = 1, email = js ''a@x.com'', password_hash = js ''hash:pw1''\<rparr>],
      users_seq = 1, optimizations = [], optimizations_seq = 0\<rparr>"
  by (simp add: registered_db_def signup_def auth_fields_def sqlite_text_def
        sample_externals_def select_user_by_email_def insert_user_def empty_db_def
        is_high_def is_low_def js_def Let_def)

lemma registered_tables:
  "optimizations registered_db = []"
  "optimizations_seq registered_db = 0"
  "users registered_db = [\<lparr>uid = 1, email = js ''a@x.com'', password_hash = js ''hash:pw1''\<rparr>]"
  by (simp_all add: registered_db_value)

lemma registered_lookup:
  "select_user_by_email registered_db (js ''a@x.com'') =
     Some \<lparr>uid = 1, email = js ''a@x.com'', password_hash = js ''hash:pw1''\<rparr>"
  "select_user_by_email registered_db (js ''b@x.com'') = None"
  "js ''a@x.com'' \<in> email ` set (users registered_db)"
  "js ''A@x.com'' \<notin> email ` set (users registered_db)"
  "select_user_by_email empty_db (js ''a@x.com'') = None"
  "bcrypt_compare (sample_externals NaN) (String (js ''wrongpw'')) (js ''hash:pw1'') = Some False"
  "select_user_by_id registered_db 9 = None"
  by (simp_all add: registered_db_value select_user_by_email_def select_user_by_id_def
        empty_db_def sample_externals_def js_def)

lemma sample_tokens:
  "jwt_verify (sample_externals NaN) (js ''garbage'') = None"
  "jwt_verify (sample_externals NaN) (js ''valid-9'') =
     Some \<lparr>user_ident = 9, user_email = String (js ''z@x.com'')\<rparr>"
  "getUserFromToken (sample_externals NaN) registered_db (Some (js ''valid-1'')) =
     Some \<lparr>user_ident = 1, user_email = String (js ''a@x.com'')\<rparr>"
  "getUserFromToken (sample_externals NaN) registered_db (Some (js ''valid-9'')) = None"
  "getUserFromToken (sample_externals NaN) registered_db (Some (js ''garbage'')) = None"
  "getUserFromToken x db None = None"
  by (simp_all add: getUserFromToken_def registered_db_value select_user_by_id_def
        sample_externals_def js_def)

lemma sample_fields:
  "optimize_fields (body_of p op tb ta) =
     \<lparr>b_prompt = p, b_optimized_prompt = op, b_tokens_before = tb, b_tokens_after = ta\<rparr>"
  "b_prompt (optimize_fields (body_of p op tb ta)) = p"
  "b_optimized_prompt (optimize_fields (body_of p op tb ta)) = op"
  "b_tokens_before (optimize_fields (body_of p op tb ta)) = tb"
  "b_tokens_after (optimize_fields (body_of p op tb ta)) = ta"
  by (simp_all add: optimize_fields_def)

lemma sample_estimates:
  "estimateTokens (js ''a'') = 1"
  "estimateTokens (js ''the quick brown fox and a turtle'') = 8"
  "estimateTokens (js ''quick brown fox turtle'') = 6"
  by (simp_all add: js_def estimateTokens_def trim_def isWhiteSpace_def SP_def)

lemma optimize_sample_empty_prompt:
  "optimize (sample_externals NaN) empty_db None
        (body_of (String []) Undefined Undefined Undefined)
       = (reply 400 (Message ''prompt required''), empty_db)"
  "optimize (sample_externals NaN) empty_db None None
       = (reply 400 (Message ''prompt required''), empty_db)"
  by (simp_all add: optimize_def optimize_fields_def)

lemma optimize_sample_number_prompt:
  "optimize (sample_externals NaN) empty_db None
        (body_of (Number (Fin 123)) Undefined Undefined Undefined)
       = (reply 500 (Message ''Server error''), empty_db)"
  by (simp add: optimize_def optimize_try_def sample_fields tokens_before_of_def
        estimateTokens_value_def)

lemma optimize_sample_infinite_before:
  "optimize (sample_externals NaN) empty_db None
        (body_of (String (js ''a'')) Undefined (Number PInf) Undefined)
       = (reply 500 (Message ''Server error''), empty_db)"
  by (simp add: optimize_def optimize_try_def sample_fields tokens_before_of_def
        tokens_after_of_def js_sub_def signed_inf_def savings_formula
        insert_optimization_def sample_text sqlite_text_def js_nonempty)

lemma optimize_sample_estimated:
  "optimize (sample_externals NaN) empty_db None
        (body_of (String (js ''the quick brown fox and a turtle''))
           (String (js ''quick brown fox turtle'')) Undefined Undefined)
       = (reply 200 (OptimizeJson
            \<lparr>res_id = 1, res_user_id = None, res_tokens_before = Number (Fin 8),
             res_tokens_after = Number (Fin 6), res_tokens_saved = Number (Fin 2),
             res_kwh_saved = Number (Fin (2 * (0.0003 / 1000))),
             res_co2_saved_kg = Number (Fin (2 * (0.0003 / 1000) * 0.45))\<rparr>),
          \<lparr>users = [], users_seq = 0,
           optimizations =
             [\<lparr>oid = 1, user_id = None, prompt = js ''the quick brown fox and a turtle'',
               optimized_prompt = js ''quick brown fox turtle'',
               tokens_before = Fin 8, tokens_after = Fin 6, tokens_saved = Fin 2,
               co2_saved_kg = Fin (2 * (0.0003 / 1000) * 0.45)\<rparr>],
           optimizations_seq = 1\<rparr>)"
  by (simp add: optimize_def optimize_try_def sample_fields tokens_before_of_def
        tokens_after_of_def estimateTokens_value_def sample_estimates savings_formula
        sample_grid insert_optimization_def sample_text sample_tokens js_nonempty
        reply_def empty_db_def)

lemma optimize_sample_prompt_only:
  "optimize (sample_externals NaN) empty_db None
        (body_of (String (js ''a'')) Undefined Undefined Undefined)
       = (reply 200 (OptimizeJson
            \<lparr>res_id = 1, res_user_id = None, res_tokens_before = Number (Fin 1),
             res_tokens_after = Number (Fin 1), res_tokens_saved = Number (Fin 0),
             res_kwh_saved = Number (Fin 0), res_co2_saved_kg = Number (Fin 0)\<rparr>),
          \<lparr>users = [], users_seq = 0,
           optimizations =
             [\<lparr>oid = 1, user_id = None, prompt = js ''a'', optimized_prompt = [],
               tokens_before = Fin 1, tokens_after = Fin 1, tokens_saved = Fin 0,
               co2_saved_kg = Fin 0\<rparr>],
           optimizations_seq = 1\<rparr>)"
  by (simp add: optimize_def optimize_try_def sample_fields tokens_before_of_def
        tokens_after_of_def estimateTokens_value_def sample_estimates savings_formula
        sample_grid insert_optimization_def sample_text sample_tokens js_nonempty
        reply_def empty_db_def sqlite_text_def js_well_formed)

lemma optimize_sample_supplied:
  assumes "GRID_KGCO2_PER_KWH (sample_externals g) = Fin gr"
  shows "optimize (sample_externals g) empty_db None
        (body_of (String (js ''a'')) Undefined (Number (Fin tb)) (Number (Fin ta)))
       = (reply 200 (OptimizeJson
            \<lparr>res_id = 1, res_user_id = None, res_tokens_before = Number (Fin tb),
             res_tokens_after = Number (Fin ta),
             res_tokens_saved = Number (Fin (max 0 (tb - ta))),
             res_kwh_saved = Number (Fin (max 0 (tb - ta) * (0.0003 / 1000))),
             res_co2_saved_kg = Number (Fin (max 0 (tb - ta) * (0.0003 / 1000) * gr))\<rparr>),
          \<lparr>users = [], users_seq = 0,
           optimizations =
             [\<lparr>oid = 1, user_id = None, prompt = js ''a'', optimized_prompt = [],
               tokens_before = Fin tb, tokens_after = Fin ta,
               tokens_saved = Fin (max 0 (tb - ta)),
               co2_saved_kg = Fin (max 0 (tb - ta) * (0.0003 / 1000) * gr)\<rparr>],
           optimizations_seq = 1\<rparr>)"
  by (simp add: optimize_def optimize_try_def sample_fields tokens_before_of_def
        tokens_after_of_def savings_formula assms insert_optimization_def sample_text
        sample_tokens js_nonempty reply_def empty_db_def sqlite_text_def js_well_formed)

lemma optimize_sample_before_only:
  assumes "\<not> truthy op"
  shows "optimize (sample_externals NaN) empty_db None
        (body_of (String (js ''a'')) op (Number (Fin tb)) Undefined)
       = (reply 200 (OptimizeJson
            \<lparr>res_id = 1, res_user_id = None, res_tokens_before = Number (Fin tb),
             res_tokens_after = Number (Fin (max 0 (tb - max 0 (of_int \<lfloor>tb * 0.2\<rfloor>)))),
             res_tokens_saved =
               Number (Fin (max 0 (tb - max 0 (tb - max 0 (of_int \<lfloor>tb * 0.2\<rfloor>))))),
             res_kwh_saved =
               Number (Fin (max 0 (tb - max 0 (tb - max 0 (of_int \<lfloor>tb * 0.2\<rfloor>)))
                              * (0.0003 / 1000))),
             res_co2_saved_kg =
               Number (Fin (max 0 (tb - max 0 (tb - max 0 (of_int \<lfloor>tb * 0.2\<rfloor>)))
                              * (0.0003 / 1000) * 0.45))\<rparr>),
          \<lparr>users = [], users_seq = 0,
           optimizations =
             [\<lparr>oid = 1, user_id = None, prompt = js ''a'', optimized_prompt = [],
               tokens_before = Fin tb,
               tokens_after = Fin (max 0 (tb - max 0 (of_int \<lfloor>tb * 0.2\<rfloor>))),
               tokens_saved = Fin (max 0 (tb - max 0 (tb - max 0 (of_int \<lfloor>tb * 0.2\<rfloor>)))),
               co2_saved_kg =
                 Fin (max 0 (tb - max 0 (tb - max 0 (of_int \<lfloor>tb * 0.2\<rfloor>)))
                        * (0.0003 / 1000) * 0.45)\<rparr>],
           optimizations_seq = 1\<rparr>)"
  using assms
  by (simp add: optimize_def optimize_try_def sample_fields tokens_before_of_def
        tokens_after_of_def savings_formula sample_grid insert_optimization_def sample_text
        sample_tokens js_nonempty reply_def empty_db_def sqlite_text_def js_well_formed)

lemma optimize_sample_bad_token:
  "optimize (sample_externals NaN) registered_db (Some (js ''valid-9''))
        (body_of (String (js ''a'')) Undefined (Number (Fin 10)) (Number (Fin 6)))
       = (reply 200 (OptimizeJson
            \<lparr>res_id = 1, res_user_id = None, res_tokens_before = Number (Fin 10),
             res_tokens_after = Number (Fin 6), res_tokens_saved = Number (Fin 4),
             res_kwh_saved = Number (Fin (4 * (0.0003 / 1000))),
             res_co2_saved_kg = Number (Fin (4 * (0.0003 / 1000) * 0.45))\<rparr>),
          registered_db\<lparr>optimizations :=
             [\<lparr>oid = 1, user_id = None, prompt = js ''a'', optimized_prompt = [],
               tokens_before = Fin 10, tokens_after = Fin 6, tokens_saved = Fin 4,
               co2_saved_kg = Fin (4 * (0.0003 / 1000) * 0.45)\<rparr>],
           optimizations_seq := 1\<rparr>)"
  "optimize (sample_externals NaN) registered_db None
        (body_of (String (js ''a'')) Undefined (Number (Fin 10)) (Number (Fin 6)))
       = (reply 200 (OptimizeJson
            \<lparr>res_id = 1, res_user_id = None, res_tokens_before = Number (Fin 10),
             res_tokens_after = Number (Fin 6), res_tokens_saved = Number (Fin 4),
             res_kwh_saved = Number (Fin (4 * (0.0003 / 1000))),
             res_co2_saved_kg = Number (Fin (4 * (0.0003 / 1000) * 0.45))\<rparr>),
          registered_db\<lparr>optimizations :=
             [\<lparr>oid = 1, user_id = None, prompt = js ''a'', optimized_prompt = [],
               tokens_before = Fin 10, tokens_after = Fin 6, tokens_saved = Fin 4,
               co2_saved_kg = Fin (4 * (0.0003 / 1000) * 0.45)\<rparr>],
           optimizations_seq := 1\<rparr>)"
  by (simp_all add: optimize_def optimize_try_def sample_fields tokens_before_of_def
        tokens_after_of_def savings_formula sample_grid insert_optimization_def sample_text
        sample_tokens js_nonempty reply_def registered_tables sqlite_text_def js_well_formed)

lemma signup_sample_duplicate:
  "signup (sample_externals NaN) registered_db
     (Some \<lparr>b_email = String (js ''a@x.com''), b_password = String (js ''pw2'')\<rparr>)
   = (reply 409 (Message ''Email already in use''), registered_db)"
  "signup (sample_externals NaN) registered_db
     (Some \<lparr>b_email = String (js ''a@x.com''), b_password = Undefined\<rparr>)
   = (reply 400 (Message ''Email and password required''), registered_db)"
  by (simp_all add: signup_def auth_fields_def sample_text registered_lookup js_nonempty)

lemma signup_sample_other_case:
  "status (fst (signup (sample_externals NaN) registered_db
     (Some \<lparr>b_email = String (js ''A@x.com''), b_password = String (js ''pw2'')\<rparr>))) = 200"
  "users (snd (signup (sample_externals NaN) registered_db
     (Some \<lparr>b_email = String (js ''A@x.com''), b_password = String (js ''pw2'')\<rparr>))) =
     [\<lparr>uid = 1, email = js ''a@x.com'', password_hash = js ''hash:pw1''\<rparr>,
      \<lparr>uid = 2, email = js ''A@x.com'', password_hash = js ''hash:pw2''\<rparr>]"
  by (simp_all add: registered_db_value signup_def auth_fields_def sqlite_text_def
        sample_externals_def select_user_by_email_def insert_user_def createToken_def
        is_high_def is_low_def js_def Let_def)

lemma login_sample_failures:
  "login (sample_externals NaN) empty_db
        (Some \<lparr>b_email = String (js ''a@x.com''), b_password = String (js ''wrongpw'')\<rparr>)
     = (reply 401 (Message ''Invalid credentials''), empty_db)"
  "login (sample_externals NaN) registered_db
        (Some \<lparr>b_email = String (js ''a@x.com''), b_password = String (js ''wrongpw'')\<rparr>)
     = (reply 401 (Message ''Invalid credentials''), registered_db)"
  by (simp_all add: login_def auth_fields_def sample_text registered_lookup js_nonempty)

lemma login_sample_number_password:
  "login (sample_externals NaN) registered_db
        (Some \<lparr>b_email = String (js ''a@x.com''), b_password = Number (Fin 123)\<rparr>)
     = (reply 500 (Message ''Server error''), registered_db)"
  "login (sample_externals NaN) registered_db
        (Some \<lparr>b_email = String (js ''b@x.com''), b_password = Number (Fin 123)\<rparr>)
     = (reply 401 (Message ''Invalid credentials''), registered_db)"
  by (simp_all add: login_def auth_fields_def sample_text registered_lookup sample_bcrypt
        js_nonempty)


section \<open>The savings of a pair of token counts\<close>

text \<open>
  Claim C2, as the code has it. The savings of a pair of token counts are
  \<open>tokens_saved = max 0 (tokens_before - tokens_after)\<close>,
  \<open>kwh_saved = tokens_saved * (0.0003 / 1000)\<close> and \<open>co2_saved_kg = kwh_saved * grid\<close>, in
  JavaScript's arithmetic for every pair of numbers and every grid intensity. For a pair
  of finite counts and a finite grid intensity these are the same formulas over the reals:
  the saved tokens and the saved energy are finite and not negative, the saved CO2 is not
  negative when the grid intensity is not negative, and when \<open>tokens_after\<close> exceeds
  \<open>tokens_before\<close> the saved tokens, the saved energy and the saved CO2 are 0. Whatever the
  numbers, the saved tokens and the saved energy are never less than 0, and neither is the
  saved CO2 unless the grid intensity is. The grid intensity is 0.45 when none is
  configured and the configured number when that is not 0. Every request that the
  optimize handler answers with 200 reports exactly these savings for the counts it
  stores, at the grid intensity of the environment.
\<close>

theorem savings_computation:
  "savings g tb ta =
     (js_max (Fin 0) (js_sub tb ta),
      js_mul (js_max (Fin 0) (js_sub tb ta)) (Fin (0.0003 / 1000)),
      js_mul (js_mul (js_max (Fin 0) (js_sub tb ta)) (Fin (0.0003 / 1000))) g)
   \<and> savings (Fin r) (Fin a) (Fin b) =
       (Fin (max 0 (a - b)), Fin (max 0 (a - b) * (0.0003 / 1000)),
        Fin (max 0 (a - b) * (0.0003 / 1000) * r))
   \<and> 0 \<le> fin (fst (savings (Fin r) (Fin a) (Fin b)))
   \<and> 0 \<le> fin (fst (snd (savings (Fin r) (Fin a) (Fin b))))
   \<and> (0 \<le> r \<longrightarrow> 0 \<le> fin (snd (snd (savings (Fin r) (Fin a) (Fin b)))))
   \<and> (a < b \<longrightarrow> savings (Fin r) (Fin a) (Fin b) = (Fin 0, Fin 0, Fin 0))
   \<and> \<not> js_less (fst (savings g tb ta)) (Fin 0)
   \<and> \<not> js_less (fst (snd (savings g tb ta))) (Fin 0)
   \<and> (\<not> js_less g (Fin 0) \<longrightarrow> \<not> js_less (snd (snd (savings g tb ta))) (Fin 0))
   \<and> (grid_env x = NaN \<longrightarrow> GRID_KGCO2_PER_KWH x = Fin 0.45)
   \<and> (grid_env y = Fin r \<and> r \<noteq> 0 \<longrightarrow> GRID_KGCO2_PER_KWH y = Fin r)
   \<and> (status (fst (optimize x db tok bd)) = 200 \<longrightarrow>
        tokens_before_of (optimize_fields bd) = Some (tokens_before (stored_row x db tok bd))
      \<and> tokens_after_of (optimize_fields bd) (tokens_before (stored_row x db tok bd)) =
          Some (tokens_after (stored_row x db tok bd))
      \<and> tokens_saved (stored_row x db tok bd) =
          fst (savings (GRID_KGCO2_PER_KWH x) (tokens_before (stored_row x db tok bd))
                 (tokens_after (stored_row x db tok bd)))
      \<and> co2_saved_kg (stored_row x db tok bd) =
          snd (snd (savings (GRID_KGCO2_PER_KWH x) (tokens_before (stored_row x db tok bd))
                      (tokens_after (stored_row x db tok bd))))
      \<and> fst (optimize x db tok bd) =
          reply 200 (OptimizeJson
            \<lparr>res_id = oid (stored_row x db tok bd),
             res_user_id = user_id (stored_row x db tok bd),
             res_tokens_before = to_json (tokens_before (stored_row x db tok bd)),
             res_tokens_after = to_json (tokens_after (stored_row x db tok bd)),
             res_tokens_saved =
               to_json (fst (savings (GRID_KGCO2_PER_KWH x)
                               (tokens_before (stored_row x db tok bd))
                               (tokens_after (stored_row x db tok bd)))),
             res_kwh_saved =
               to_json (fst (snd (savings (GRID_KGCO2_PER_KWH x)
                                    (tokens_before (stored_row x db tok bd))
                                    (tokens_after (stored_row x db tok bd))))),
             res_co2_saved_kg =
               to_json (snd (snd (savings (GRID_KGCO2_PER_KWH x)
                                    (tokens_before (stored_row x db tok bd))
                                    (tokens_after (stored_row x db tok bd)))))\<rparr>))"
proof -
  have fin: "savings (Fin r) (Fin a) (Fin b) =
       (Fin (max 0 (a - b)), Fin (max 0 (a - b) * (0.0003 / 1000)),
        Fin (max 0 (a - b) * (0.0003 / 1000) * r))"
    by (simp add: savings_formula)
  have nn: "0 \<le> max 0 (a - b) * (0.0003 / 1000 :: real)" by simp
  have s: "savings g tb ta =
     (js_max (Fin 0) (js_sub tb ta),
      js_mul (js_max (Fin 0) (js_sub tb ta)) (Fin (0.0003 / 1000)),
      js_mul (js_mul (js_max (Fin 0) (js_sub tb ta)) (Fin (0.0003 / 1000))) g)
   \<and> savings (Fin r) (Fin a) (Fin b) =
       (Fin (max 0 (a - b)), Fin (max 0 (a - b) * (0.0003 / 1000)),
        Fin (max 0 (a - b) * (0.0003 / 1000) * r))
   \<and> 0 \<le> fin (fst (savings (Fin r) (Fin a) (Fin b)))
   \<and> 0 \<le> fin (fst (snd (savings (Fin r) (Fin a) (Fin b))))
   \<and> (0 \<le> r \<longrightarrow> 0 \<le> fin (snd (snd (savings (Fin r) (Fin a) (Fin b)))))
   \<and> (a < b \<longrightarrow> savings (Fin r) (Fin a) (Fin b) = (Fin 0, Fin 0, Fin 0))"
    unfolding fin using nn by (simp add: savings_formula mult_nonneg_nonneg)
  have n: "\<not> js_less (fst (savings g tb ta)) (Fin 0)
   \<and> \<not> js_less (fst (snd (savings g tb ta))) (Fin 0)
   \<and> (\<not> js_less g (Fin 0) \<longrightarrow> \<not> js_less (snd (snd (savings g tb ta))) (Fin 0))"
    using savings_not_negative [of g tb ta] by blast
  have e: "(grid_env x = NaN \<longrightarrow> GRID_KGCO2_PER_KWH x = Fin 0.45)
   \<and> (grid_env y = Fin r \<and> r \<noteq> 0 \<longrightarrow> GRID_KGCO2_PER_KWH y = Fin r)"
    using GRID_cases(1) [of x] GRID_cases(3) [of y r] by blast
  have h: "tokens_before_of (optimize_fields bd) = Some (tokens_before (stored_row x db tok bd))
      \<and> tokens_after_of (optimize_fields bd) (tokens_before (stored_row x db tok bd)) =
          Some (tokens_after (stored_row x db tok bd))
      \<and> tokens_saved (stored_row x db tok bd) =
          fst (savings (GRID_KGCO2_PER_KWH x) (tokens_before (stored_row x db tok bd))
                 (tokens_after (stored_row x db tok bd)))
      \<and> co2_saved_kg (stored_row x db tok bd) =
          snd (snd (savings (GRID_KGCO2_PER_KWH x) (tokens_before (stored_row x db tok bd))
                      (tokens_after (stored_row x db tok bd))))
      \<and> fst (optimize x db tok bd) =
          reply 200 (OptimizeJson
            \<lparr>res_id = oid (stored_row x db tok bd),
             res_user_id = user_id (stored_row x db tok bd),
             res_tokens_before = to_json (tokens_before (stored_row x db tok bd)),
             res_tokens_after = to_json (tokens_after (stored_row x db tok bd)),
             res_tokens_saved =
               to_json (fst (savings (GRID_KGCO2_PER_KWH x)
                               (tokens_before (stored_row x db tok bd))
                               (tokens_after (stored_row x db tok bd)))),
             res_kwh_saved =
               to_json (fst (snd (savings (GRID_KGCO2_PER_KWH x)
                                    (tokens_before (stored_row x db tok bd))
                                    (tokens_after (stored_row x db tok bd))))),
             res_co2_saved_kg =
               to_json (snd (snd (savings (GRID_KGCO2_PER_KWH x)
                                    (tokens_before (stored_row x db tok bd))
                                    (tokens_after (stored_row x db tok bd)))))\<rparr>)"
    if ok: "status (fst (optimize x db tok bd)) = 200"
  proof -
    note row = optimize_row [OF ok]
    have ts: "js_max (Fin 0) (js_sub (tokens_before (stored_row x db tok bd))
                             (tokens_after (stored_row x db tok bd)))
                = tokens_saved (stored_row x db tok bd)"
      by (rule row(7) [symmetric])
    have co2: "js_mul (js_mul (tokens_saved (stored_row x db tok bd)) (Fin (0.0003 / 1000)))
             (GRID_KGCO2_PER_KWH x) = co2_saved_kg (stored_row x db tok bd)"
      by (rule row(8) [symmetric])
    show ?thesis
      unfolding savings_formula fst_conv snd_conv ts co2
      using row(3,4) optimize_reply [OF ok] by simp
  qed
  from s n e h show ?thesis by blast
qed

text \<open>
  The savings at the grid intensity 0.2 for the counts 10 and 6 and for the counts 6 and
  10, and the handler at the default grid intensity on a request that supplies 6 and 10.
\<close>

theorem savings_computation_witness:
  "(0::real) \<le> 0.2 \<and> (6::real) < 10 \<and> \<not> js_less (Fin 0.2) (Fin 0)
   \<and> grid_env (sample_externals NaN) = NaN
   \<and> grid_env (sample_externals (Fin 0.2)) = Fin 0.2 \<and> (0.2::real) \<noteq> 0
   \<and> status (fst (optimize (sample_externals NaN) empty_db None
        (body_of (String (js ''a'')) Undefined (Number (Fin 6)) (Number (Fin 10))))) = 200
   \<and> savings (Fin 0.2) (Fin 10) (Fin 6) =
       (Fin 4, Fin (4 * (0.0003 / 1000)), Fin (4 * (0.0003 / 1000) * 0.2))
   \<and> savings (Fin 0.2) (Fin 6) (Fin 10) = (Fin 0, Fin 0, Fin 0)
   \<and> GRID_KGCO2_PER_KWH (sample_externals NaN) = Fin 0.45
   \<and> GRID_KGCO2_PER_KWH (sample_externals (Fin 0.2)) = Fin 0.2
   \<and> tokens_saved (stored_row (sample_externals NaN) empty_db None
        (body_of (String (js ''a'')) Undefined (Number (Fin 6)) (Number (Fin 10)))) = Fin 0
   \<and> co2_saved_kg (stored_row (sample_externals NaN) empty_db None
        (body_of (String (js ''a'')) Undefined (Number (Fin 6)) (Number (Fin 10)))) = Fin 0"
  using savings_computation [where g = "Fin 0.2" and tb = "Fin 10" and ta = "Fin 6"
      and r = "0.2" and a = 6 and b = 10
      and x = "sample_externals NaN" and y = "sample_externals (Fin 0.2)"
      and db = empty_db and tok = None
      and bd = "body_of (String (js ''a'')) Undefined (Number (Fin 6)) (Number (Fin 10))"]
    savings_computation [where g = "Fin 0.2" and tb = "Fin 10" and ta = "Fin 6"
      and r = "0.2" and a = 10 and b = 6
      and x = "sample_externals NaN" and y = "sample_externals (Fin 0.2)"
      and db = empty_db and tok = None
      and bd = "body_of (String (js ''a'')) Undefined (Number (Fin 6)) (Number (Fin 10))"]
  by (simp add: sample_grid optimize_sample_supplied [OF sample_grid(1)] reply_def
        savings_formula)

text \<open>
  Claim C2 as stated fails where the environment configures a grid intensity that is
  negative or infinite. With \<^verbatim>\<open>GRID_KGCO2_PER_KWH=-1\<close> and the counts 10 and 6, the saved
  CO2 is negative. With \<^verbatim>\<open>GRID_KGCO2_PER_KWH=Infinity\<close> and the counts 6 and 10, where
  \<open>tokens_after\<close> exceeds \<open>tokens_before\<close>, the saved CO2 is 0 times infinity, which is NaN
  and not 0.
\<close>

theorem savings_negative_grid:
  "snd (snd (savings (GRID_KGCO2_PER_KWH (sample_externals (Fin (- 1)))) (Fin 10) (Fin 6)))
     = Fin (- (3 / 2500000))
   \<and> js_less (snd (snd (savings (GRID_KGCO2_PER_KWH (sample_externals (Fin (- 1))))
                           (Fin 10) (Fin 6)))) (Fin 0)
   \<and> savings (GRID_KGCO2_PER_KWH (sample_externals PInf)) (Fin 6) (Fin 10)
       = (Fin 0, Fin 0, NaN)"
  by (simp add: savings_formula sample_grid signed_inf_def)


section \<open>The stored records\<close>

text \<open>
  Claim C3, as the code has it. In every store that a sequence of requests builds from
  the empty one under one environment, every record has
  \<open>tokens_saved = max 0 (tokens_before - tokens_after)\<close> and
  \<open>co2_saved_kg = tokens_saved * (0.0003 / 1000) * grid\<close>, in JavaScript's arithmetic and,
  where the counts and the grid intensity are finite, over the reals; no stored number is
  NaN; no request changes or removes a record, since the table after any sequence of
  requests starts with the table before it. A request that the optimize handler answers
  with 200 appends one record, and any other answer leaves the table as it was. A written
  record holds a number of the client as it was sent. \<open>tokens_before\<close> is a non-negative
  integer when the server estimates it; \<open>tokens_after\<close> is finite and not negative when the
  server derives it, and is a non-negative integer when \<open>tokens_before\<close> is one;
  \<open>tokens_saved\<close> is a non-negative integer when both counts are.
\<close>

theorem stored_record_invariant:
  "(\<forall>r\<in>set (optimizations (run x empty_db rs)).
       tokens_saved r = js_max (Fin 0) (js_sub (tokens_before r) (tokens_after r)) \<and>
       co2_saved_kg r =
         js_mul (js_mul (tokens_saved r) (Fin (0.0003 / 1000))) (GRID_KGCO2_PER_KWH x) \<and>
       tokens_before r \<noteq> NaN \<and> tokens_after r \<noteq> NaN \<and>
       tokens_saved r \<noteq> NaN \<and> co2_saved_kg r \<noteq> NaN \<and>
       (\<forall>a b. tokens_before r = Fin a \<and> tokens_after r = Fin b \<longrightarrow>
          tokens_saved r = Fin (max 0 (a - b)) \<and>
          (\<forall>g. GRID_KGCO2_PER_KWH x = Fin g \<longrightarrow>
             co2_saved_kg r = Fin (max 0 (a - b) * (0.0003 / 1000) * g))))
   \<and> prefix (optimizations db) (optimizations (run x db rs))
   \<and> (status (fst (optimize x db tok bd)) \<noteq> 200 \<longrightarrow> snd (optimize x db tok bd) = db)
   \<and> (status (fst (optimize x db tok bd)) = 200 \<longrightarrow>
        optimizations (snd (optimize x db tok bd)) =
          optimizations db @ [stored_row x db tok bd]
        \<and> tokens_saved (stored_row x db tok bd) =
            js_max (Fin 0) (js_sub (tokens_before (stored_row x db tok bd))
                              (tokens_after (stored_row x db tok bd)))
        \<and> co2_saved_kg (stored_row x db tok bd) =
            js_mul (js_mul (tokens_saved (stored_row x db tok bd)) (Fin (0.0003 / 1000)))
              (GRID_KGCO2_PER_KWH x)
        \<and> (\<forall>a b. tokens_before (stored_row x db tok bd) = Fin a
                 \<and> tokens_after (stored_row x db tok bd) = Fin b \<longrightarrow>
              tokens_saved (stored_row x db tok bd) = Fin (max 0 (a - b)) \<and>
              (\<forall>g. GRID_KGCO2_PER_KWH x = Fin g \<longrightarrow>
                 co2_saved_kg (stored_row x db tok bd) =
                   Fin (max 0 (a - b) * (0.0003 / 1000) * g)))
        \<and> (\<forall>n. b_tokens_before (optimize_fields bd) = Number n \<longrightarrow>
              tokens_before (stored_row x db tok bd) = n)
        \<and> (\<forall>n. b_tokens_after (optimize_fields bd) = Number n \<longrightarrow>
              tokens_after (stored_row x db tok bd) = n)
        \<and> (\<not> is_number (b_tokens_before (optimize_fields bd)) \<longrightarrow>
              tokens_before (stored_row x db tok bd) \<in> Fin ` \<nat>)
        \<and> (\<not> is_number (b_tokens_after (optimize_fields bd)) \<longrightarrow>
              (\<exists>a. 0 \<le> a \<and> tokens_after (stored_row x db tok bd) = Fin a))
        \<and> (\<not> is_number (b_tokens_after (optimize_fields bd))
             \<and> tokens_before (stored_row x db tok bd) \<in> Fin ` \<nat> \<longrightarrow>
              tokens_after (stored_row x db tok bd) \<in> Fin ` \<nat>)
        \<and> (tokens_before (stored_row x db tok bd) \<in> Fin ` \<nat>
             \<and> tokens_after (stored_row x db tok bd) \<in> Fin ` \<nat> \<longrightarrow>
              tokens_saved (stored_row x db tok bd) \<in> Fin ` \<nat>))"
proof (intro conjI impI)
  have inv: "\<forall>r\<in>set (optimizations (run x empty_db rs)).
       tokens_saved r = js_max (Fin 0) (js_sub (tokens_before r) (tokens_after r)) \<and>
       co2_saved_kg r =
         js_mul (js_mul (tokens_saved r) (Fin (0.0003 / 1000))) (GRID_KGCO2_PER_KWH x) \<and>
       tokens_before r \<noteq> NaN \<and> tokens_after r \<noteq> NaN \<and>
       tokens_saved r \<noteq> NaN \<and> co2_saved_kg r \<noteq> NaN"
    by (rule run_derived) (simp add: empty_db_def)
  show "\<forall>r\<in>set (optimizations (run x empty_db rs)).
       tokens_saved r = js_max (Fin 0) (js_sub (tokens_before r) (tokens_after r)) \<and>
       co2_saved_kg r =
         js_mul (js_mul (tokens_saved r) (Fin (0.0003 / 1000))) (GRID_KGCO2_PER_KWH x) \<and>
       tokens_before r \<noteq> NaN \<and> tokens_after r \<noteq> NaN \<and>
       tokens_saved r \<noteq> NaN \<and> co2_saved_kg r \<noteq> NaN \<and>
       (\<forall>a b. tokens_before r = Fin a \<and> tokens_after r = Fin b \<longrightarrow>
          tokens_saved r = Fin (max 0 (a - b)) \<and>
          (\<forall>g. GRID_KGCO2_PER_KWH x = Fin g \<longrightarrow>
             co2_saved_kg r = Fin (max 0 (a - b) * (0.0003 / 1000) * g)))"
  proof (rule ballI)
    fix r assume "r \<in> set (optimizations (run x empty_db rs))"
    with inv have r:
      "tokens_saved r = js_max (Fin 0) (js_sub (tokens_before r) (tokens_after r))"
      "co2_saved_kg r =
         js_mul (js_mul (tokens_saved r) (Fin (0.0003 / 1000))) (GRID_KGCO2_PER_KWH x)"
      "tokens_before r \<noteq> NaN" "tokens_after r \<noteq> NaN"
      "tokens_saved r \<noteq> NaN" "co2_saved_kg r \<noteq> NaN"
      by blast+
    have "tokens_saved r = Fin (max 0 (a - b)) \<and>
          (\<forall>g. GRID_KGCO2_PER_KWH x = Fin g \<longrightarrow>
             co2_saved_kg r = Fin (max 0 (a - b) * (0.0003 / 1000) * g))"
      if "tokens_before r = Fin a \<and> tokens_after r = Fin b" for a b
    proof -
      from that r(1) have t: "tokens_saved r = Fin (max 0 (a - b))" by simp
      show ?thesis using t r(2) by simp
    qed
    with r show "tokens_saved r = js_max (Fin 0) (js_sub (tokens_before r) (tokens_after r)) \<and>
       co2_saved_kg r =
         js_mul (js_mul (tokens_saved r) (Fin (0.0003 / 1000))) (GRID_KGCO2_PER_KWH x) \<and>
       tokens_before r \<noteq> NaN \<and> tokens_after r \<noteq> NaN \<and>
       tokens_saved r \<noteq> NaN \<and> co2_saved_kg r \<noteq> NaN \<and>
       (\<forall>a b. tokens_before r = Fin a \<and> tokens_after r = Fin b \<longrightarrow>
          tokens_saved r = Fin (max 0 (a - b)) \<and>
          (\<forall>g. GRID_KGCO2_PER_KWH x = Fin g \<longrightarrow>
             co2_saved_kg r = Fin (max 0 (a - b) * (0.0003 / 1000) * g)))"
      by blast
  qed
  show "prefix (optimizations db) (optimizations (run x db rs))" by (rule run_append_only)
  show "snd (optimize x db tok bd) = db" if "status (fst (optimize x db tok bd)) \<noteq> 200"
    using that by (rule optimize_unchanged)
next
  assume ok: "status (fst (optimize x db tok bd)) = 200"
  note row = optimize_row [OF ok]
  note tab = optimize_table [OF ok]
  let ?row = "stored_row x db tok bd"
  show "optimizations (snd (optimize x db tok bd)) = optimizations db @ [?row]"
    by (rule tab(1))
  show ts: "tokens_saved ?row = js_max (Fin 0) (js_sub (tokens_before ?row) (tokens_after ?row))"
    by (rule row(7))
  show co2: "co2_saved_kg ?row =
      js_mul (js_mul (tokens_saved ?row) (Fin (0.0003 / 1000))) (GRID_KGCO2_PER_KWH x)"
    by (rule row(8))
  show "\<forall>a b. tokens_before ?row = Fin a \<and> tokens_after ?row = Fin b \<longrightarrow>
              tokens_saved ?row = Fin (max 0 (a - b)) \<and>
              (\<forall>g. GRID_KGCO2_PER_KWH x = Fin g \<longrightarrow>
                 co2_saved_kg ?row = Fin (max 0 (a - b) * (0.0003 / 1000) * g))"
  proof (intro allI impI)
    fix a b assume "tokens_before ?row = Fin a \<and> tokens_after ?row = Fin b"
    with ts have t: "tokens_saved ?row = Fin (max 0 (a - b))" by simp
    show "tokens_saved ?row = Fin (max 0 (a - b)) \<and>
              (\<forall>g. GRID_KGCO2_PER_KWH x = Fin g \<longrightarrow>
                 co2_saved_kg ?row = Fin (max 0 (a - b) * (0.0003 / 1000) * g))"
      using t co2 by simp
  qed
  show "\<forall>n. b_tokens_before (optimize_fields bd) = Number n \<longrightarrow> tokens_before ?row = n"
    using row(3) by (auto simp: tokens_before_of_number)
  show "\<forall>n. b_tokens_after (optimize_fields bd) = Number n \<longrightarrow> tokens_after ?row = n"
    using row(4) by (auto simp: tokens_after_of_number)
  show "tokens_before ?row \<in> Fin ` \<nat>" if "\<not> is_number (b_tokens_before (optimize_fields bd))"
    using that row(3) by (rule tokens_before_of_estimated_Nats)
  show "\<exists>a. 0 \<le> a \<and> tokens_after ?row = Fin a"
    if "\<not> is_number (b_tokens_after (optimize_fields bd))"
    using that row(4) row(10) by (rule tokens_after_of_derived_nonneg)
  show "tokens_after ?row \<in> Fin ` \<nat>"
    if "\<not> is_number (b_tokens_after (optimize_fields bd)) \<and> tokens_before ?row \<in> Fin ` \<nat>"
    using tokens_after_of_derived_Nats [OF _ row(4)] that by blast
  show "tokens_saved ?row \<in> Fin ` \<nat>"
    if "tokens_before ?row \<in> Fin ` \<nat> \<and> tokens_after ?row \<in> Fin ` \<nat>"
    unfolding ts using that saved_Nats_number by blast
qed

text \<open>
  The store after one request with the prompt \<^verbatim>\<open>a\<close> and no counts, the record of a
  request that supplies the counts 10 and 6, and a request without a prompt.
\<close>

theorem stored_record_invariant_witness:
  "status (fst (optimize (sample_externals NaN) empty_db None
        (body_of (String (js ''a'')) Undefined Undefined Undefined))) = 200
   \<and> \<not> is_number (b_tokens_before (optimize_fields
          (body_of (String (js ''a'')) Undefined Undefined Undefined)))
   \<and> \<not> is_number (b_tokens_after (optimize_fields
          (body_of (String (js ''a'')) Undefined Undefined Undefined)))
   \<and> optimizations (run (sample_externals NaN) empty_db
        [Optimize None (body_of (String (js ''a'')) Undefined Undefined Undefined)]) =
       [\<lparr>oid = 1, user_id = None, prompt = js ''a'', optimized_prompt = [],
         tokens_before = Fin 1, tokens_after = Fin 1, tokens_saved = Fin 0,
         co2_saved_kg = Fin 0\<rparr>]
   \<and> Fin 1 \<in> Fin ` \<nat> \<and> Fin 0 \<in> Fin ` \<nat>
   \<and> GRID_KGCO2_PER_KWH (sample_externals NaN) = Fin 0.45
   \<and> status (fst (optimize (sample_externals NaN) empty_db None
        (body_of (String (js ''a'')) Undefined (Number (Fin 10)) (Number (Fin 6))))) = 200
   \<and> b_tokens_before (optimize_fields
        (body_of (String (js ''a'')) Undefined (Number (Fin 10)) (Number (Fin 6))))
       = Number (Fin 10)
   \<and> b_tokens_after (optimize_fields
        (body_of (String (js ''a'')) Undefined (Number (Fin 10)) (Number (Fin 6))))
       = Number (Fin 6)
   \<and> stored_row (sample_externals NaN) empty_db None
        (body_of (String (js ''a'')) Undefined (Number (Fin 10)) (Number (Fin 6))) =
       \<lparr>oid = 1, user_id = None, prompt = js ''a'', optimized_prompt = [],
         tokens_before = Fin 10, tokens_after = Fin 6, tokens_saved = Fin 4,
         co2_saved_kg = Fin (4 * (0.0003 / 1000) * 0.45)\<rparr>
   \<and> status (fst (optimize (sample_externals NaN) empty_db None None)) \<noteq> 200
   \<and> snd (optimize (sample_externals NaN) empty_db None None) = empty_db"
  using stored_record_invariant [where x = "sample_externals NaN" and db = empty_db
      and rs = "[Optimize None (body_of (String (js ''a'')) Undefined Undefined Undefined)]"
      and bd = "body_of (String (js ''a'')) Undefined Undefined Undefined" and tok = None]
    stored_record_invariant [where x = "sample_externals NaN" and db = empty_db
      and rs = "[]"
      and bd = "body_of (String (js ''a'')) Undefined (Number (Fin 10)) (Number (Fin 6))"
      and tok = None]
    stored_record_invariant [where x = "sample_externals NaN" and db = empty_db
      and rs = "[]" and bd = None and tok = None]
  by (simp add: optimize_sample_prompt_only optimize_sample_supplied [OF sample_grid(1)]
        optimize_sample_empty_prompt sample_fields sample_grid reply_def)

text \<open>
  Claim C3 as stated fails for a count of the client: the request
  \<^verbatim>\<open>{prompt: "a", tokens_before: -5}\<close> stores \<open>tokens_before = -5\<close>, which is negative.
\<close>

theorem stored_negative_tokens_before:
  "map tokens_before (optimizations (snd (optimize (sample_externals NaN) empty_db None
        (body_of (String (js ''a'')) Undefined (Number (Fin (- 5))) Undefined)))) = [Fin (- 5)]
   \<and> js_less (Fin (- 5)) (Fin 0)"
  by (simp add: optimize_sample_before_only)


section \<open>The stats snapshot\<close>

lemma foldl_js_add_finite:
  "\<forall>v\<in>set vs. \<exists>c. v = Fin c \<Longrightarrow> foldl js_add (Fin a) vs = Fin (a + sum_list (map fin vs))"
proof (induction vs arbitrary: a)
  case Nil
  show ?case by simp
next
  case (Cons v vs)
  from Cons.prems obtain c where v: "v = Fin c" by auto
  from Cons.prems have "\<forall>v\<in>set vs. \<exists>c. v = Fin c" by simp
  then have "foldl js_add (Fin (a + c)) vs = Fin (a + c + sum_list (map fin vs))"
    by (rule Cons.IH)
  then show ?case by (simp add: v add.assoc)
qed

lemma sum_or_zero_finite:
  assumes "\<forall>v\<in>set vs. \<exists>c. v = Fin c"
  shows "sum_or_zero vs = Fin (sum_list (map fin vs))"
  using foldl_js_add_finite [OF assms, of 0] by (simp add: sum_or_zero_def)

lemma stats_value:
  "stats x db =
     (reply 200 (StatsJson
        \<lparr>st_users = length (users db),
         st_co2_saved_kg = to_json (sum_or_zero (map co2_saved_kg (optimizations db))),
         st_co2_saved_g =
           to_json (js_mul (sum_or_zero (map co2_saved_kg (optimizations db))) (Fin 1000)),
         st_prompts_optimized = length (optimizations db),
         st_energy_saved_kwh =
           to_json (if js_less (Fin 0) (GRID_KGCO2_PER_KWH x)
                    then js_div (sum_or_zero (map co2_saved_kg (optimizations db)))
                           (GRID_KGCO2_PER_KWH x)
                    else Fin 0),
         st_impact_score =
           to_json (js_add
             (js_add (js_mul (sum_or_zero (map co2_saved_kg (optimizations db))) (Fin 1000))
                (js_mul (Fin (real (length (optimizations db)))) (Fin 0.1)))
             (js_mul (Fin (real (length (users db)))) (Fin 1)))\<rparr>), db)"
  by (simp add: stats_def Let_def)

text \<open>
  Claim C4, as the code has it. For every store, the stats handler answers 200 with
  \<open>users\<close> the number of user rows, \<open>prompts_optimized\<close> the number of records,
  \<open>co2_saved_kg\<close> the sum of the records' \<open>co2_saved_kg\<close> (0 when there are none),
  \<open>energy_saved_kwh = co2_saved_kg / grid\<close> when the grid intensity is positive and 0
  otherwise (the grid intensity is never 0), and
  \<open>impact_score = co2_saved_kg * 1000 + prompts_optimized * 0.1 + users * 1\<close>, in
  JavaScript's arithmetic and as it writes numbers to JSON; where every record's
  \<open>co2_saved_kg\<close> and the grid intensity are finite, these are the same formulas over the
  reals. It leaves the store as it was, so a second read gives the same answer.
\<close>

theorem stats_snapshot:
  "stats x db =
     (reply 200 (StatsJson
        \<lparr>st_users = length (users db),
         st_co2_saved_kg = to_json (sum_or_zero (map co2_saved_kg (optimizations db))),
         st_co2_saved_g =
           to_json (js_mul (sum_or_zero (map co2_saved_kg (optimizations db))) (Fin 1000)),
         st_prompts_optimized = length (optimizations db),
         st_energy_saved_kwh =
           to_json (if js_less (Fin 0) (GRID_KGCO2_PER_KWH x)
                    then js_div (sum_or_zero (map co2_saved_kg (optimizations db)))
                           (GRID_KGCO2_PER_KWH x)
                    else Fin 0),
         st_impact_score =
           to_json (js_add
             (js_add (js_mul (sum_or_zero (map co2_saved_kg (optimizations db))) (Fin 1000))
                (js_mul (Fin (real (length (optimizations db)))) (Fin 0.1)))
             (js_mul (Fin (real (length (users db)))) (Fin 1)))\<rparr>), db)
   \<and> ((\<forall>r\<in>set (optimizations db). co2_saved_kg r \<notin> {NaN, NInf, PInf})
        \<and> GRID_KGCO2_PER_KWH x = Fin g \<longrightarrow>
       stats x db =
         (reply 200 (StatsJson
            \<lparr>st_users = length (users db),
             st_co2_saved_kg =
               Number (Fin (sum_list (map (fin \<circ> co2_saved_kg) (optimizations db)))),
             st_co2_saved_g =
               Number (Fin (sum_list (map (fin \<circ> co2_saved_kg) (optimizations db)) * 1000)),
             st_prompts_optimized = length (optimizations db),
             st_energy_saved_kwh =
               Number (Fin (if 0 < g
                            then sum_list (map (fin \<circ> co2_saved_kg) (optimizations db)) / g
                            else 0)),
             st_impact_score =
               Number (Fin (sum_list (map (fin \<circ> co2_saved_kg) (optimizations db)) * 1000
                 + real (length (optimizations db)) * 0.1
                 + real (length (users db)) * 1))\<rparr>), db))
   \<and> (optimizations db = [] \<longrightarrow>
        sum_or_zero (map co2_saved_kg (optimizations db)) = Fin 0)
   \<and> GRID_KGCO2_PER_KWH x \<noteq> Fin 0
   \<and> stats x (snd (stats x db)) = stats x db"
proof (intro conjI impI)
  show "stats x db =
     (reply 200 (StatsJson
        \<lparr>st_users = length (users db),
         st_co2_saved_kg = to_json (sum_or_zero (map co2_saved_kg (optimizations db))),
         st_co2_saved_g =
           to_json (js_mul (sum_or_zero (map co2_saved_kg (optimizations db))) (Fin 1000)),
         st_prompts_optimized = length (optimizations db),
         st_energy_saved_kwh =
           to_json (if js_less (Fin 0) (GRID_KGCO2_PER_KWH x)
                    then js_div (sum_or_zero (map co2_saved_kg (optimizations db)))
                           (GRID_KGCO2_PER_KWH x)
                    else Fin 0),
         st_impact_score =
           to_json (js_add
             (js_add (js_mul (sum_or_zero (map co2_saved_kg (optimizations db))) (Fin 1000))
                (js_mul (Fin (real (length (optimizations db)))) (Fin 0.1)))
             (js_mul (Fin (real (length (users db)))) (Fin 1)))\<rparr>), db)"
    by (rule stats_value)
  show "sum_or_zero (map co2_saved_kg (optimizations db)) = Fin 0" if "optimizations db = []"
    using that by (simp add: sum_or_zero_def)
  show "GRID_KGCO2_PER_KWH x \<noteq> Fin 0" by (rule GRID_nonzero(1))
  show "stats x (snd (stats x db)) = stats x db" by (simp add: stats_db)
next
  assume a: "(\<forall>r\<in>set (optimizations db). co2_saved_kg r \<notin> {NaN, NInf, PInf})
        \<and> GRID_KGCO2_PER_KWH x = Fin g"
  have "\<exists>c. v = Fin c" if "v \<notin> {NaN, NInf, PInf}" for v
    using that by (cases v) simp_all
  with a have "\<forall>v\<in>set (map co2_saved_kg (optimizations db)). \<exists>c. v = Fin c" by simp
  then have s: "sum_or_zero (map co2_saved_kg (optimizations db)) =
      Fin (sum_list (map (fin \<circ> co2_saved_kg) (optimizations db)))"
    by (simp add: sum_or_zero_finite)
  from a have g: "GRID_KGCO2_PER_KWH x = Fin g" by simp
  show "stats x db =
         (reply 200 (StatsJson
            \<lparr>st_users = length (users db),
             st_co2_saved_kg =
               Number (Fin (sum_list (map (fin \<circ> co2_saved_kg) (optimizations db)))),
             st_co2_saved_g =
               Number (Fin (sum_list (map (fin \<circ> co2_saved_kg) (optimizations db)) * 1000)),
             st_prompts_optimized = length (optimizations db),
             st_energy_saved_kwh =
               Number (Fin (if 0 < g
                            then sum_list (map (fin \<circ> co2_saved_kg) (optimizations db)) / g
                            else 0)),
             st_impact_score =
               Number (Fin (sum_list (map (fin \<circ> co2_saved_kg) (optimizations db)) * 1000
                 + real (length (optimizations db)) * 0.1
                 + real (length (users db)) * 1))\<rparr>), db)"
    unfolding stats_value s g by simp
qed

text \<open>
  The snapshot of the empty store, and of the store after the scenario of the
  specification: one optimize request with the counts 10 and 6.
\<close>

theorem stats_snapshot_witness:
  "optimizations empty_db = []
   \<and> stats (sample_externals NaN) empty_db =
       (reply 200 (StatsJson
          \<lparr>st_users = 0, st_co2_saved_kg = Number (Fin 0), st_co2_saved_g = Number (Fin 0),
           st_prompts_optimized = 0, st_energy_saved_kwh = Number (Fin 0),
           st_impact_score = Number (Fin 0)\<rparr>), empty_db)
   \<and> GRID_KGCO2_PER_KWH (sample_externals NaN) = Fin 0.45 \<and> (0::real) < 0.45
   \<and> map co2_saved_kg (optimizations (run (sample_externals NaN) empty_db
            [Optimize None
               (body_of (String (js ''a'')) Undefined (Number (Fin 10)) (Number (Fin 6)))]))
       = [Fin (4 * (0.0003 / 1000) * 0.45)]
   \<and> fst (stats (sample_externals NaN)
         (run (sample_externals NaN) empty_db
            [Optimize None
               (body_of (String (js ''a'')) Undefined (Number (Fin 10)) (Number (Fin 6)))]))
       = reply 200 (StatsJson
          \<lparr>st_users = 0, st_co2_saved_kg = Number (Fin (4 * (0.0003 / 1000) * 0.45)),
           st_co2_saved_g = Number (Fin (4 * (0.0003 / 1000) * 0.45 * 1000)),
           st_prompts_optimized = 1,
           st_energy_saved_kwh = Number (Fin (4 * (0.0003 / 1000))),
           st_impact_score = Number (Fin (4 * (0.0003 / 1000) * 0.45 * 1000 + 0.1))\<rparr>)"
  using stats_snapshot [of "sample_externals NaN" empty_db "0.45"]
    stats_snapshot [of "sample_externals NaN"
      "run (sample_externals NaN) empty_db
            [Optimize None
               (body_of (String (js ''a'')) Undefined (Number (Fin 10)) (Number (Fin 6)))]"
      "0.45"]
  by (simp add: optimize_sample_supplied [OF sample_grid(1)] sample_grid sum_or_zero_def
        reply_def empty_tables)

text \<open>
  Claim C4 as stated fails where the environment sets a negative grid intensity: with
  \<^verbatim>\<open>GRID_KGCO2_PER_KWH=-1\<close>, after one optimize request with the counts 10 and 6 the
  snapshot has \<open>energy_saved_kwh = 0\<close>, while \<open>co2_saved_kg / grid\<close> is not 0 and the grid
  intensity is not 0.
\<close>

theorem stats_energy_negative_grid:
  "fst (stats (sample_externals (Fin (- 1)))
         (run (sample_externals (Fin (- 1))) empty_db
            [Optimize None
               (body_of (String (js ''a'')) Undefined (Number (Fin 10)) (Number (Fin 6)))]))
   = reply 200 (StatsJson
       \<lparr>st_users = 0, st_co2_saved_kg = Number (Fin (- (3 / 2500000))),
        st_co2_saved_g = Number (Fin (- (3 / 2500))),
        st_prompts_optimized = 1, st_energy_saved_kwh = Number (Fin 0),
        st_impact_score = Number (Fin (- (3 / 2500) + 0.1))\<rparr>)
   \<and> GRID_KGCO2_PER_KWH (sample_externals (Fin (- 1))) = Fin (- 1)
   \<and> js_div (Fin (- (3 / 2500000))) (GRID_KGCO2_PER_KWH (sample_externals (Fin (- 1))))
       = Fin (3 / 2500000)"
  by (simp add: optimize_sample_supplied [OF sample_grid(3)] sample_grid stats_def
        sum_or_zero_def Let_def)


section \<open>The optimize endpoint\<close>

text \<open>
  Claim C5, as the code has it. A request without a prompt, or with a prompt that is
  falsy (the empty string among them), is answered 400 and the store is unchanged. Any
  other request is answered 200 or, where a step of the handler throws, 500 with the
  store unchanged. A request answered 200 appends exactly one record to the optimizations
  table, changes nothing else but the table's sequence counter, and reports the identifier
  of the new record, which no record of a store built from the empty one has. The record
  holds the text of the prompt, the text of the optimized prompt or the empty string,
  \<open>tokens_before\<close> as supplied or else the estimate of the prompt, and \<open>tokens_after\<close> as
  supplied or else, when a non-empty optimized prompt is supplied, its estimate. Supplied
  counts are stored as they are. A request is answered 200 when its prompt is a non-empty
  string, its optimized prompt is falsy or a string, no supplied count is NaN or an
  infinity, and the grid intensity is finite.
\<close>

theorem optimize_endpoint:
  "(\<not> truthy (b_prompt (optimize_fields b)) \<longrightarrow>
      optimize x db tok b = (reply 400 (Message ''prompt required''), db))
   \<and> (truthy (b_prompt (optimize_fields b)) \<longrightarrow>
        status (fst (optimize x db tok b)) = 200
        \<or> optimize x db tok b = (reply 500 (Message ''Server error''), db))
   \<and> (b_prompt f = String p \<and> p \<noteq> []
        \<and> (\<not> truthy (b_optimized_prompt f) \<or> is_string (b_optimized_prompt f))
        \<and> b_tokens_before f \<notin> {Number NaN, Number PInf, Number NInf}
        \<and> b_tokens_after f \<notin> {Number NaN, Number PInf, Number NInf}
        \<and> grid_env x \<notin> {PInf, NInf} \<longrightarrow>
        status (fst (optimize x db tok (Some f))) = 200)
   \<and> (status (fst (optimize x db tok b)) = 200 \<longrightarrow>
        optimizations (snd (optimize x db tok b)) =
          optimizations db @ [stored_row x db tok b]
        \<and> optimizations_seq (snd (optimize x db tok b)) = optimizations_seq db + 1
        \<and> users (snd (optimize x db tok b)) = users db
        \<and> users_seq (snd (optimize x db tok b)) = users_seq db
        \<and> fst (optimize x db tok b) =
            reply 200 (OptimizeJson
              \<lparr>res_id = oid (stored_row x db tok b),
               res_user_id = user_id (stored_row x db tok b),
               res_tokens_before = to_json (tokens_before (stored_row x db tok b)),
               res_tokens_after = to_json (tokens_after (stored_row x db tok b)),
               res_tokens_saved = to_json (tokens_saved (stored_row x db tok b)),
               res_kwh_saved =
                 to_json (js_mul (tokens_saved (stored_row x db tok b)) (Fin (0.0003 / 1000))),
               res_co2_saved_kg = to_json (co2_saved_kg (stored_row x db tok b))\<rparr>)
        \<and> oid (stored_row x db tok b) = optimizations_seq db + 1
        \<and> sqlite_text x (b_prompt (optimize_fields b)) = Some (prompt (stored_row x db tok b))
        \<and> (\<forall>s. b_prompt (optimize_fields b) = String s \<longrightarrow>
              prompt (stored_row x db tok b) = to_well_formed s)
        \<and> (\<not> truthy (b_optimized_prompt (optimize_fields b)) \<longrightarrow>
              optimized_prompt (stored_row x db tok b) = [])
        \<and> (\<forall>s. b_optimized_prompt (optimize_fields b) = String s \<longrightarrow>
              optimized_prompt (stored_row x db tok b) = to_well_formed s)
        \<and> (\<forall>n. b_tokens_before (optimize_fields b) = Number n \<longrightarrow>
              tokens_before (stored_row x db tok b) = n)
        \<and> (\<not> is_number (b_tokens_before (optimize_fields b)) \<longrightarrow>
              (\<exists>s. b_prompt (optimize_fields b) = String s
                 \<and> tokens_before (stored_row x db tok b) = Fin (of_int (estimateTokens s))))
        \<and> (\<forall>n. b_tokens_after (optimize_fields b) = Number n \<longrightarrow>
              tokens_after (stored_row x db tok b) = n)
        \<and> (\<not> is_number (b_tokens_after (optimize_fields b))
             \<and> truthy (b_optimized_prompt (optimize_fields b)) \<longrightarrow>
              (\<exists>s. b_optimized_prompt (optimize_fields b) = String s
                 \<and> tokens_after (stored_row x db tok b) = Fin (of_int (estimateTokens s)))))
   \<and> (\<forall>r\<in>set (optimizations (run x empty_db rs)).
         oid r \<noteq> optimizations_seq (run x empty_db rs) + 1)"
proof (intro conjI impI)
  assume "\<not> truthy (b_prompt (optimize_fields b))"
  then show "optimize x db tok b = (reply 400 (Message ''prompt required''), db)"
    by (rule optimize_rejects)
next
  assume "truthy (b_prompt (optimize_fields b))"
  then have "optimize x db tok b \<noteq> (reply 400 (Message ''prompt required''), db)"
    by (auto simp: optimize_def optimize_try_def insert_optimization_def Let_def reply_def
          split: option.splits prod.splits if_splits)
  with optimize_status [of x db tok b]
  show "status (fst (optimize x db tok b)) = 200
        \<or> optimize x db tok b = (reply 500 (Message ''Server error''), db)"
    by blast
next
  assume "b_prompt f = String p \<and> p \<noteq> []
        \<and> (\<not> truthy (b_optimized_prompt f) \<or> is_string (b_optimized_prompt f))
        \<and> b_tokens_before f \<notin> {Number NaN, Number PInf, Number NInf}
        \<and> b_tokens_after f \<notin> {Number NaN, Number PInf, Number NInf}
        \<and> grid_env x \<notin> {PInf, NInf}"
  then show "status (fst (optimize x db tok (Some f))) = 200"
    using optimize_accepts [of f p x db tok] by blast
next
  have "\<forall>r\<in>set (optimizations (run x empty_db rs)). oid r \<le> optimizations_seq (run x empty_db rs)"
    by (rule run_ids) (simp add: empty_db_def)
  then show "\<forall>r\<in>set (optimizations (run x empty_db rs)).
         oid r \<noteq> optimizations_seq (run x empty_db rs) + 1"
    by auto
next
  assume ok: "status (fst (optimize x db tok b)) = 200"
  note row = optimize_row [OF ok]
  note tab = optimize_table [OF ok]
  let ?row = "stored_row x db tok b"
  let ?f = "optimize_fields b"
  show "optimizations (snd (optimize x db tok b)) = optimizations db @ [?row]"
    by (rule tab(1))
  show "optimizations_seq (snd (optimize x db tok b)) = optimizations_seq db + 1"
    by (rule tab(2))
  show "users (snd (optimize x db tok b)) = users db" by (rule tab(3))
  show "users_seq (snd (optimize x db tok b)) = users_seq db" by (rule tab(4))
  show "fst (optimize x db tok b) =
            reply 200 (OptimizeJson
              \<lparr>res_id = oid ?row, res_user_id = user_id ?row,
               res_tokens_before = to_json (tokens_before ?row),
               res_tokens_after = to_json (tokens_after ?row),
               res_tokens_saved = to_json (tokens_saved ?row),
               res_kwh_saved = to_json (js_mul (tokens_saved ?row) (Fin (0.0003 / 1000))),
               res_co2_saved_kg = to_json (co2_saved_kg ?row)\<rparr>)"
    using ok by (rule optimize_reply)
  show "oid ?row = optimizations_seq db + 1" by (rule row(1))
  show "sqlite_text x (b_prompt ?f) = Some (prompt ?row)" by (rule row(5))
  show "\<forall>s. b_prompt ?f = String s \<longrightarrow> prompt ?row = to_well_formed s"
    using row(5) by (auto simp: sqlite_text_String)
  show "optimized_prompt ?row = []" if "\<not> truthy (b_optimized_prompt ?f)"
    using row(6) that by (simp add: sqlite_text_String)
  show "\<forall>s. b_optimized_prompt ?f = String s \<longrightarrow> optimized_prompt ?row = to_well_formed s"
    using row(6) by (auto simp: sqlite_text_String split: if_splits)
  show "\<forall>n. b_tokens_before ?f = Number n \<longrightarrow> tokens_before ?row = n"
    using row(3) by (auto simp: tokens_before_of_number)
  show "\<forall>n. b_tokens_after ?f = Number n \<longrightarrow> tokens_after ?row = n"
    using row(4) by (auto simp: tokens_after_of_number)
  show "\<exists>s. b_prompt ?f = String s \<and> tokens_before ?row = Fin (of_int (estimateTokens s))"
    if "\<not> is_number (b_tokens_before ?f)"
  proof -
    from that row(3) obtain i where i: "estimateTokens_value (b_prompt ?f) = Some i"
      "tokens_before ?row = Fin (of_int i)"
      by (auto simp: tokens_before_of_estimated)
    from estimateTokens_value_cases [OF i(1)] row(13) i(2) show ?thesis by auto
  qed
  show "\<exists>s. b_optimized_prompt ?f = String s
          \<and> tokens_after ?row = Fin (of_int (estimateTokens s))"
    if "\<not> is_number (b_tokens_after ?f) \<and> truthy (b_optimized_prompt ?f)"
  proof -
    from that row(4) obtain i where i: "estimateTokens_value (b_optimized_prompt ?f) = Some i"
      "tokens_after ?row = Fin (of_int i)"
      by (auto simp: tokens_after_of_derived)
    from estimateTokens_value_cases [OF i(1)] that i(2) show ?thesis by auto
  qed
qed

text \<open>
  The endpoint on the empty prompt, on a prompt that is a number, on the prompt of the
  specification's scenario with an optimized prompt, and on a request that supplies both
  counts.
\<close>

theorem optimize_endpoint_witness:
  "\<not> truthy (b_prompt (optimize_fields (body_of (String []) Undefined Undefined Undefined)))
   \<and> optimize (sample_externals NaN) empty_db None
        (body_of (String []) Undefined Undefined Undefined)
       = (reply 400 (Message ''prompt required''), empty_db)
   \<and> truthy (b_prompt (optimize_fields
        (body_of (Number (Fin 123)) Undefined Undefined Undefined)))
   \<and> optimize (sample_externals NaN) empty_db None
        (body_of (Number (Fin 123)) Undefined Undefined Undefined)
       = (reply 500 (Message ''Server error''), empty_db)
   \<and> status (fst (optimize (sample_externals NaN) empty_db None
        (body_of (String (js ''the quick brown fox and a turtle''))
           (String (js ''quick brown fox turtle'')) Undefined Undefined))) = 200
   \<and> \<not> is_number Undefined \<and> truthy (String (js ''quick brown fox turtle''))
   \<and> is_string (String (js ''quick brown fox turtle''))
   \<and> js ''the quick brown fox and a turtle'' \<noteq> []
   \<and> Undefined \<notin> {Number NaN, Number PInf, Number NInf}
   \<and> grid_env (sample_externals NaN) \<notin> {PInf, NInf}
   \<and> stored_row (sample_externals NaN) empty_db None
        (body_of (String (js ''the quick brown fox and a turtle''))
           (String (js ''quick brown fox turtle'')) Undefined Undefined) =
       \<lparr>oid = 1, user_id = None, prompt = js ''the quick brown fox and a turtle'',
        optimized_prompt = js ''quick brown fox turtle'',
        tokens_before = Fin 8, tokens_after = Fin 6, tokens_saved = Fin 2,
        co2_saved_kg = Fin (2 * (0.0003 / 1000) * 0.45)\<rparr>
   \<and> status (fst (optimize (sample_externals NaN) empty_db None
        (body_of (String (js ''a'')) Undefined (Number (Fin 10)) (Number (Fin 6))))) = 200
   \<and> \<not> truthy Undefined
   \<and> tokens_before (stored_row (sample_externals NaN) empty_db None
        (body_of (String (js ''a'')) Undefined (Number (Fin 10)) (Number (Fin 6)))) = Fin 10
   \<and> tokens_after (stored_row (sample_externals NaN) empty_db None
        (body_of (String (js ''a'')) Undefined (Number (Fin 10)) (Number (Fin 6)))) = Fin 6
   \<and> optimized_prompt (stored_row (sample_externals NaN) empty_db None
        (body_of (String (js ''a'')) Undefined (Number (Fin 10)) (Number (Fin 6)))) = []
   \<and> map oid (optimizations (run (sample_externals NaN) empty_db
        [Optimize None
           (body_of (String (js ''a'')) Undefined (Number (Fin 10)) (Number (Fin 6)))])) = [1]"
  using optimize_endpoint [where x = "sample_externals NaN" and db = empty_db and tok = None
      and b = "body_of (String []) Undefined Undefined Undefined"
      and f = "\<lparr>b_prompt = String (js ''the quick brown fox and a turtle''),
               b_optimized_prompt = String (js ''quick brown fox turtle''),
               b_tokens_before = Undefined, b_tokens_after = Undefined\<rparr>"
      and p = "js ''the quick brown fox and a turtle''"
      and rs = "[Optimize None
           (body_of (String (js ''a'')) Undefined (Number (Fin 10)) (Number (Fin 6)))]"]
    optimize_endpoint [where x = "sample_externals NaN" and db = empty_db and tok = None
      and b = "body_of (Number (Fin 123)) Undefined Undefined Undefined"
      and f = "\<lparr>b_prompt = String (js ''a''), b_optimized_prompt = Undefined,
               b_tokens_before = Number (Fin 10), b_tokens_after = Number (Fin 6)\<rparr>"
      and p = "js ''a''" and rs = "[]"]
    optimize_endpoint [where x = "sample_externals NaN" and db = empty_db and tok = None
      and b = "body_of (String (js ''the quick brown fox and a turtle''))
           (String (js ''quick brown fox turtle'')) Undefined Undefined"
      and f = "\<lparr>b_prompt = String (js ''a''), b_optimized_prompt = Undefined,
               b_tokens_before = Number (Fin 10), b_tokens_after = Number (Fin 6)\<rparr>"
      and p = "js ''a''" and rs = "[]"]
    optimize_endpoint [where x = "sample_externals NaN" and db = empty_db and tok = None
      and b = "body_of (String (js ''a'')) Undefined (Number (Fin 10)) (Number (Fin 6))"
      and f = "\<lparr>b_prompt = String (js ''a''), b_optimized_prompt = Undefined,
               b_tokens_before = Number (Fin 10), b_tokens_after = Number (Fin 6)\<rparr>"
      and p = "js ''a''" and rs = "[]"]
  by (simp add: optimize_sample_empty_prompt optimize_sample_number_prompt
        optimize_sample_estimated optimize_sample_supplied [OF sample_grid(1)]
        sample_fields sample_grid js_nonempty reply_def)

text \<open>
  Claim C5 as stated fails in two ways. Where the optimized prompt is supplied as the
  empty string, the request \<^verbatim>\<open>{prompt: "a", optimized_prompt: "", tokens_before: 10}\<close>
  stores \<open>tokens_after = 8\<close>, the count less a fifth, and not the estimate of the empty
  string, which is 0. Where the prompt is present but is not a string, the request
  \<^verbatim>\<open>{prompt: 123}\<close> is answered 500 and no record is written.
\<close>

theorem optimize_empty_optimized_prompt:
  "map tokens_after (optimizations (snd (optimize (sample_externals NaN) empty_db None
        (body_of (String (js ''a'')) (String []) (Number (Fin 10)) Undefined)))) = [Fin 8]
   \<and> estimateTokens [] = 0
   \<and> optimize (sample_externals NaN) empty_db None
        (body_of (Number (Fin 123)) Undefined Undefined Undefined)
       = (reply 500 (Message ''Server error''), empty_db)"
  by (simp add: optimize_sample_before_only optimize_sample_number_prompt estimateTokens_def)


section \<open>Signup and login\<close>

text \<open>
  Claim C6, as the code has it. A signup request whose email is a string that the
  database holds as the email of a registered user leaves the store unchanged; it is
  answered 409 when the email and the password are both present and truthy, and 400 when
  either is missing or falsy. The comparison is exact: a request with a non-empty email
  that no row has, and a password that the hash function accepts, is answered 200 and
  appends a user row.
\<close>

theorem signup_duplicate:
  assumes "b_email f = String e" and "to_well_formed e \<in> email ` set (users db)"
  shows "snd (signup x db (Some f)) = db
     \<and> (e \<noteq> [] \<and> truthy (b_password f) \<longrightarrow>
          fst (signup x db (Some f)) = reply 409 (Message ''Email already in use''))
     \<and> (e = [] \<or> \<not> truthy (b_password f) \<longrightarrow>
          fst (signup x db (Some f)) = reply 400 (Message ''Email and password required''))
     \<and> (b_email g = String e' \<and> e' \<noteq> [] \<and> to_well_formed e' \<notin> email ` set (users db)
          \<and> truthy (b_password g) \<and> bcrypt_hash x (b_password g) = Some h \<longrightarrow>
          status (fst (signup x db (Some g))) = 200
          \<and> users (snd (signup x db (Some g))) =
              users db @ [\<lparr>uid = users_seq db + 1, email = to_well_formed e',
                           password_hash = h\<rparr>])"
proof -
  from assms(2) obtain row where r: "select_user_by_email db (to_well_formed e) = Some row"
    using select_user_by_email_None [of db "to_well_formed e"]
    by (cases "select_user_by_email db (to_well_formed e)") auto
  have dup: "snd (signup x db (Some f)) = db
     \<and> (e \<noteq> [] \<and> truthy (b_password f) \<longrightarrow>
          fst (signup x db (Some f)) = reply 409 (Message ''Email already in use''))
     \<and> (e = [] \<or> \<not> truthy (b_password f) \<longrightarrow>
          fst (signup x db (Some f)) = reply 400 (Message ''Email and password required''))"
    using assms(1) r by (auto simp: signup_def auth_fields_def sqlite_text_String Let_def)
  have fresh: "b_email g = String e' \<and> e' \<noteq> [] \<and> to_well_formed e' \<notin> email ` set (users db)
          \<and> truthy (b_password g) \<and> bcrypt_hash x (b_password g) = Some h \<longrightarrow>
          status (fst (signup x db (Some g))) = 200
          \<and> users (snd (signup x db (Some g))) =
              users db @ [\<lparr>uid = users_seq db + 1, email = to_well_formed e',
                           password_hash = h\<rparr>]"
  proof
    assume a: "b_email g = String e' \<and> e' \<noteq> [] \<and> to_well_formed e' \<notin> email ` set (users db)
          \<and> truthy (b_password g) \<and> bcrypt_hash x (b_password g) = Some h"
    then have n: "select_user_by_email db (to_well_formed e') = None"
      by (simp add: select_user_by_email_None)
    from a have i: "insert_user db (to_well_formed e') h =
        Some (users_seq db + 1,
              db\<lparr>users := users db @
                     [\<lparr>uid = users_seq db + 1, email = to_well_formed e', password_hash = h\<rparr>],
                 users_seq := users_seq db + 1\<rparr>)"
      by (simp add: insert_user_def Let_def)
    from a show "status (fst (signup x db (Some g))) = 200
          \<and> users (snd (signup x db (Some g))) =
              users db @ [\<lparr>uid = users_seq db + 1, email = to_well_formed e',
                           password_hash = h\<rparr>]"
      by (simp add: signup_def auth_fields_def sqlite_text_String n i Let_def)
  qed
  from dup fresh show ?thesis by blast
qed

text \<open>
  On the store with the user \<^verbatim>\<open>a@x.com\<close>: a second signup of \<^verbatim>\<open>a@x.com\<close> with a
  password, one without a password, and a signup of \<^verbatim>\<open>A@x.com\<close>.
\<close>

theorem signup_duplicate_witness:
  "b_email \<lparr>b_email = String (js ''a@x.com''), b_password = String (js ''pw2'')\<rparr>
     = String (js ''a@x.com'')
   \<and> to_well_formed (js ''a@x.com'') \<in> email ` set (users registered_db)
   \<and> js ''a@x.com'' \<noteq> [] \<and> truthy (String (js ''pw2''))
   \<and> signup (sample_externals NaN) registered_db
        (Some \<lparr>b_email = String (js ''a@x.com''), b_password = String (js ''pw2'')\<rparr>)
       = (reply 409 (Message ''Email already in use''), registered_db)
   \<and> \<not> truthy Undefined
   \<and> snd (signup (sample_externals NaN) registered_db
        (Some \<lparr>b_email = String (js ''a@x.com''), b_password = Undefined\<rparr>)) = registered_db
   \<and> to_well_formed (js ''A@x.com'') \<notin> email ` set (users registered_db)
   \<and> bcrypt_hash (sample_externals NaN) (String (js ''pw2'')) = Some (js ''hash:pw2'')
   \<and> status (fst (signup (sample_externals NaN) registered_db
        (Some \<lparr>b_email = String (js ''A@x.com''), b_password = String (js ''pw2'')\<rparr>))) = 200
   \<and> map email (users (snd (signup (sample_externals NaN) registered_db
        (Some \<lparr>b_email = String (js ''A@x.com''), b_password = String (js ''pw2'')\<rparr>))))
       = [js ''a@x.com'', js ''A@x.com'']"
  using signup_duplicate [where x = "sample_externals NaN" and db = registered_db
      and f = "\<lparr>b_email = String (js ''a@x.com''), b_password = String (js ''pw2'')\<rparr>"
      and e = "js ''a@x.com''"
      and g = "\<lparr>b_email = String (js ''A@x.com''), b_password = String (js ''pw2'')\<rparr>"
      and e' = "js ''A@x.com''" and h = "js ''hash:pw2''"]
    signup_duplicate [where x = "sample_externals NaN" and db = registered_db
      and f = "\<lparr>b_email = String (js ''a@x.com''), b_password = Undefined\<rparr>"
      and e = "js ''a@x.com''"
      and g = "\<lparr>b_email = String (js ''A@x.com''), b_password = String (js ''pw2'')\<rparr>"
      and e' = "js ''A@x.com''" and h = "js ''hash:pw2''"]
  by (simp add: registered_lookup signup_sample_duplicate signup_sample_other_case js_nonempty
        js_well_formed sample_hash)

text \<open>
  Claim C6 as stated fails where the request has no password: a signup of the registered
  \<^verbatim>\<open>a@x.com\<close> without a password is answered 400, not 409.
\<close>

theorem signup_duplicate_without_password:
  "js ''a@x.com'' \<in> email ` set (users registered_db)
   \<and> fst (signup (sample_externals NaN) registered_db
        (Some \<lparr>b_email = String (js ''a@x.com''), b_password = Undefined\<rparr>))
       = reply 400 (Message ''Email and password required'')
   \<and> status (fst (signup (sample_externals NaN) registered_db
        (Some \<lparr>b_email = String (js ''a@x.com''), b_password = Undefined\<rparr>))) \<noteq> 409"
  by (simp add: registered_lookup signup_sample_duplicate reply_def)

text \<open>
  The answers of the login handler to a request whose email is a non-empty string and
  whose password is truthy: 401 where no row has the email or the password does not
  verify, 500 where the comparison throws, and 200 where the password verifies. The store
  is unchanged on every path.
\<close>

lemma login_outcomes:
  assumes "b_email f = String e" and "e \<noteq> []" and "truthy (b_password f)"
  shows "(select_user_by_email db (to_well_formed e) = None \<longrightarrow>
            login x db (Some f) = (reply 401 (Message ''Invalid credentials''), db))
     \<and> (select_user_by_email db (to_well_formed e) = Some row
          \<and> bcrypt_compare x (b_password f) (password_hash row) = Some False \<longrightarrow>
            login x db (Some f) = (reply 401 (Message ''Invalid credentials''), db))
     \<and> (select_user_by_email db (to_well_formed e) = Some row
          \<and> bcrypt_compare x (b_password f) (password_hash row) = None \<longrightarrow>
            login x db (Some f) = (reply 500 (Message ''Server error''), db))
     \<and> (select_user_by_email db (to_well_formed e) = Some row
          \<and> bcrypt_compare x (b_password f) (password_hash row) = Some True \<longrightarrow>
            status (fst (login x db (Some f))) = 200)"
  using assms by (auto simp: login_def auth_fields_def sqlite_text_String Let_def)

text \<open>
  Claim C7 fails on the code. The password goes to \<^verbatim>\<open>bcrypt.compare\<close> as it was
  sent, and the library rejects a password that is not a string; the handler answers the
  exception with 500. The comparison runs only where a row has the email, so with the
  password 123 a registered email is answered 500 \<^verbatim>\<open>Server error\<close> and an email that
  is not registered is answered 401 \<^verbatim>\<open>Invalid credentials\<close>: the response tells
  whether the email exists. Here on the store where \<^verbatim>\<open>a@x.com\<close> is registered, for the
  requests \<^verbatim>\<open>{email: "a@x.com", password: 123}\<close> and
  \<^verbatim>\<open>{email: "b@x.com", password: 123}\<close>.
\<close>

theorem login_reveals_registered_email:
  "login (sample_externals NaN) registered_db
        (Some \<lparr>b_email = String (js ''a@x.com''), b_password = Number (Fin 123)\<rparr>)
     = (reply 500 (Message ''Server error''), registered_db)
   \<and> login (sample_externals NaN) registered_db
        (Some \<lparr>b_email = String (js ''b@x.com''), b_password = Number (Fin 123)\<rparr>)
     = (reply 401 (Message ''Invalid credentials''), registered_db)
   \<and> select_user_by_email registered_db (js ''a@x.com'') =
        Some \<lparr>uid = 1, email = js ''a@x.com'', password_hash = js ''hash:pw1''\<rparr>
   \<and> select_user_by_email registered_db (js ''b@x.com'') = None"
  by (simp add: login_sample_number_password registered_lookup)


section \<open>Session tokens\<close>

text \<open>
  Claim C8. The lookup of the session user returns null when the cookie is absent or
  empty, when the verification of the token throws, and when no user row has the
  identifier of the token. Whenever it returns null, the me route answers 200 with a null
  user, every route answers exactly as it does without a cookie, and an optimize request
  that is answered 200 stores and reports a null \<open>user_id\<close>; an optimize request with a
  non-empty string for a prompt, an optimized prompt that is falsy or a string, no
  supplied count that is NaN or an infinity, and a finite grid intensity is answered 200.
\<close>

theorem token_failure_is_anonymous:
  "getUserFromToken x db None = None
   \<and> getUserFromToken x db (Some []) = None
   \<and> (jwt_verify x t = None \<longrightarrow> getUserFromToken x db (Some t) = None)
   \<and> (jwt_verify x t = Some payload \<and> select_user_by_id db (user_ident payload) = None \<longrightarrow>
        getUserFromToken x db (Some t) = None)
   \<and> (getUserFromToken x db tok = None \<longrightarrow>
        me x db tok = (reply 200 (UserJson None), db)
        \<and> optimize x db tok b = optimize x db None b
        \<and> handle x db (with_token tok r) = handle x db (with_token None r)
        \<and> (status (fst (optimize x db tok b)) = 200 \<longrightarrow>
             user_id (stored_row x db tok b) = None
             \<and> (\<exists>j. body (fst (optimize x db tok b)) = OptimizeJson j
                    \<and> res_user_id j = None))
        \<and> (b_prompt f = String p \<and> p \<noteq> []
             \<and> (\<not> truthy (b_optimized_prompt f) \<or> is_string (b_optimized_prompt f))
             \<and> b_tokens_before f \<notin> {Number NaN, Number PInf, Number NInf}
             \<and> b_tokens_after f \<notin> {Number NaN, Number PInf, Number NInf}
             \<and> grid_env x \<notin> {PInf, NInf} \<longrightarrow>
             status (fst (optimize x db tok (Some f))) = 200
             \<and> user_id (stored_row x db tok (Some f)) = None
             \<and> (\<exists>j. body (fst (optimize x db tok (Some f))) = OptimizeJson j
                    \<and> res_user_id j = None)))"
proof -
  have g: "getUserFromToken x db None = None" "getUserFromToken x db (Some []) = None"
    "jwt_verify x t = None \<longrightarrow> getUserFromToken x db (Some t) = None"
    "jwt_verify x t = Some payload \<and> select_user_by_id db (user_ident payload) = None \<longrightarrow>
        getUserFromToken x db (Some t) = None"
    by (simp_all add: getUserFromToken_def)
  have a: "getUserFromToken x db tok = None \<longrightarrow>
        me x db tok = (reply 200 (UserJson None), db)
        \<and> optimize x db tok b = optimize x db None b
        \<and> handle x db (with_token tok r) = handle x db (with_token None r)
        \<and> (status (fst (optimize x db tok b)) = 200 \<longrightarrow>
             user_id (stored_row x db tok b) = None
             \<and> (\<exists>j. body (fst (optimize x db tok b)) = OptimizeJson j
                    \<and> res_user_id j = None))
        \<and> (b_prompt f = String p \<and> p \<noteq> []
             \<and> (\<not> truthy (b_optimized_prompt f) \<or> is_string (b_optimized_prompt f))
             \<and> b_tokens_before f \<notin> {Number NaN, Number PInf, Number NInf}
             \<and> b_tokens_after f \<notin> {Number NaN, Number PInf, Number NInf}
             \<and> grid_env x \<notin> {PInf, NInf} \<longrightarrow>
             status (fst (optimize x db tok (Some f))) = 200
             \<and> user_id (stored_row x db tok (Some f)) = None
             \<and> (\<exists>j. body (fst (optimize x db tok (Some f))) = OptimizeJson j
                    \<and> res_user_id j = None))"
  proof
    assume n: "getUserFromToken x db tok = None"
    have n0: "getUserFromToken x db None = None" by (simp add: getUserFromToken_def)
    have m: "me x db tok = (reply 200 (UserJson None), db)" using n by (simp add: me_def)
    have o: "optimize x db tok c = optimize x db None c" for c
      unfolding optimize_def optimize_try_def n n0 ..
    have m0: "me x db None = (reply 200 (UserJson None), db)" using n0 by (simp add: me_def)
    have h: "handle x db (with_token tok r) = handle x db (with_token None r)"
      by (cases r) (simp_all add: o m m0)
    have w: "user_id (stored_row x db tok c) = None
             \<and> (\<exists>j. body (fst (optimize x db tok c)) = OptimizeJson j \<and> res_user_id j = None)"
      if ok: "status (fst (optimize x db tok c)) = 200" for c
    proof -
      have u: "user_id (stored_row x db tok c) = None"
        using optimize_row(2) [OF ok] n by simp
      have "body (fst (optimize x db tok c)) =
          OptimizeJson
            \<lparr>res_id = oid (stored_row x db tok c),
             res_user_id = user_id (stored_row x db tok c),
             res_tokens_before = to_json (tokens_before (stored_row x db tok c)),
             res_tokens_after = to_json (tokens_after (stored_row x db tok c)),
             res_tokens_saved = to_json (tokens_saved (stored_row x db tok c)),
             res_kwh_saved =
               to_json (js_mul (tokens_saved (stored_row x db tok c)) (Fin (0.0003 / 1000))),
             res_co2_saved_kg = to_json (co2_saved_kg (stored_row x db tok c))\<rparr>"
        by (subst optimize_reply [OF ok]) (simp add: reply_def)
      with u show ?thesis by simp
    qed
    have s: "status (fst (optimize x db tok (Some f))) = 200"
      if "b_prompt f = String p \<and> p \<noteq> []
             \<and> (\<not> truthy (b_optimized_prompt f) \<or> is_string (b_optimized_prompt f))
             \<and> b_tokens_before f \<notin> {Number NaN, Number PInf, Number NInf}
             \<and> b_tokens_after f \<notin> {Number NaN, Number PInf, Number NInf}
             \<and> grid_env x \<notin> {PInf, NInf}"
      using that optimize_accepts [of f p x db tok] by blast
    from m o [of b] h w [of b] w [of "Some f"] s
    show "me x db tok = (reply 200 (UserJson None), db)
        \<and> optimize x db tok b = optimize x db None b
        \<and> handle x db (with_token tok r) = handle x db (with_token None r)
        \<and> (status (fst (optimize x db tok b)) = 200 \<longrightarrow>
             user_id (stored_row x db tok b) = None
             \<and> (\<exists>j. body (fst (optimize x db tok b)) = OptimizeJson j
                    \<and> res_user_id j = None))
        \<and> (b_prompt f = String p \<and> p \<noteq> []
             \<and> (\<not> truthy (b_optimized_prompt f) \<or> is_string (b_optimized_prompt f))
             \<and> b_tokens_before f \<notin> {Number NaN, Number PInf, Number NInf}
             \<and> b_tokens_after f \<notin> {Number NaN, Number PInf, Number NInf}
             \<and> grid_env x \<notin> {PInf, NInf} \<longrightarrow>
             status (fst (optimize x db tok (Some f))) = 200
             \<and> user_id (stored_row x db tok (Some f)) = None
             \<and> (\<exists>j. body (fst (optimize x db tok (Some f))) = OptimizeJson j
                    \<and> res_user_id j = None))" by blast
  qed
  from g a show ?thesis by blast
qed

text \<open>
  On the store with user 1: a token that does not verify, and a token that verifies for
  the identifier 9, which no row has. A token that verifies for user 1 gives that user.
\<close>

theorem token_failure_is_anonymous_witness:
  "jwt_verify (sample_externals NaN) (js ''garbage'') = None
   \<and> getUserFromToken (sample_externals NaN) registered_db (Some (js ''garbage'')) = None
   \<and> jwt_verify (sample_externals NaN) (js ''valid-9'') =
       Some \<lparr>user_ident = 9, user_email = String (js ''z@x.com'')\<rparr>
   \<and> select_user_by_id registered_db
        (user_ident \<lparr>user_ident = 9, user_email = String (js ''z@x.com'')\<rparr>) = None
   \<and> getUserFromToken (sample_externals NaN) registered_db (Some (js ''valid-9'')) = None
   \<and> me (sample_externals NaN) registered_db (Some (js ''valid-9'')) =
       (reply 200 (UserJson None), registered_db)
   \<and> js ''a'' \<noteq> [] \<and> \<not> truthy Undefined
   \<and> Number (Fin 10) \<notin> {Number NaN, Number PInf, Number NInf}
   \<and> Number (Fin 6) \<notin> {Number NaN, Number PInf, Number NInf}
   \<and> grid_env (sample_externals NaN) \<notin> {PInf, NInf}
   \<and> status (fst (optimize (sample_externals NaN) registered_db (Some (js ''valid-9''))
        (body_of (String (js ''a'')) Undefined (Number (Fin 10)) (Number (Fin 6))))) = 200
   \<and> user_id (stored_row (sample_externals NaN) registered_db (Some (js ''valid-9''))
        (body_of (String (js ''a'')) Undefined (Number (Fin 10)) (Number (Fin 6)))) = None
   \<and> getUserFromToken (sample_externals NaN) registered_db (Some (js ''valid-1'')) =
       Some \<lparr>user_ident = 1, user_email = String (js ''a@x.com'')\<rparr>"
  using token_failure_is_anonymous [where x = "sample_externals NaN" and db = registered_db
      and t = "js ''garbage''" and tok = "Some (js ''valid-9'')"
      and payload = "\<lparr>user_ident = 9, user_email = String (js ''z@x.com'')\<rparr>"
      and b = "body_of (String (js ''a'')) Undefined (Number (Fin 10)) (Number (Fin 6))"
      and r = "Me None"
      and f = "\<lparr>b_prompt = String (js ''a''), b_optimized_prompt = Undefined,
               b_tokens_before = Number (Fin 10), b_tokens_after = Number (Fin 6)\<rparr>"
      and p = "js ''a''"]
    token_failure_is_anonymous [where x = "sample_externals NaN" and db = registered_db
      and t = "js ''valid-9''" and tok = "Some (js ''garbage'')"
      and payload = "\<lparr>user_ident = 9, user_email = String (js ''z@x.com'')\<rparr>"
      and b = None and r = "Me None"
      and f = "\<lparr>b_prompt = String (js ''a''), b_optimized_prompt = Undefined,
               b_tokens_before = Number (Fin 10), b_tokens_after = Number (Fin 6)\<rparr>"
      and p = "js ''a''"]
  by (simp add: sample_tokens registered_lookup optimize_sample_bad_token js_nonempty
        sample_grid reply_def)


section \<open>The default count after optimization\<close>

lemma default_after_nat:
  "max 0 (real n - max 0 (of_int \<lfloor>real n * 0.2\<rfloor>)) = real (n - n div 5)"
  "max 0 (real n - real (n - n div 5)) = real (n div 5)"
  "real (n div 5) = of_int \<lfloor>0.2 * real n\<rfloor>"
  "real (n - n div 5) = real n - of_int \<lfloor>0.2 * real n\<rfloor>"
proof -
  have le: "n div 5 \<le> n" by simp
  have comm: "0.2 * real n = real n * 0.2" by simp
  show "max 0 (real n - max 0 (of_int \<lfloor>real n * 0.2\<rfloor>)) = real (n - n div 5)"
    unfolding floor_fifth using le by (simp add: of_nat_diff)
  show "max 0 (real n - real (n - n div 5)) = real (n div 5)"
    using le by (simp add: of_nat_diff)
  show "real (n div 5) = of_int \<lfloor>0.2 * real n\<rfloor>"
    unfolding comm floor_fifth by simp
  show "real (n - n div 5) = real n - of_int \<lfloor>0.2 * real n\<rfloor>"
    unfolding comm floor_fifth using le by (simp add: of_nat_diff)
qed





section \<open>The grid intensity\<close>

text \<open>
  Claim C10, as the code has it. Both handlers take the grid intensity as the parsed
  environment value or else 0.45: the stats handler divides by it under its guard and the
  optimize handler multiplies the saved energy by it. A parsed value of 0 and a value that
  does not parse (NaN) both give 0.45, and every other parsed value is taken as it is, so
  the grid intensity is never 0. The guard of the stats handler fails, and gives
  \<open>energy_saved_kwh = 0\<close>, exactly when the parsed value is negative: a negative number
  or the negative infinity.
\<close>

theorem grid_intensity_fallback:
  "GRID_KGCO2_PER_KWH x = or_default (grid_env x) (Fin 0.45)
   \<and> (grid_env x = Fin 0 \<longrightarrow> GRID_KGCO2_PER_KWH x = Fin 0.45)
   \<and> (grid_env x = NaN \<longrightarrow> GRID_KGCO2_PER_KWH x = Fin 0.45)
   \<and> (grid_env x \<noteq> Fin 0 \<and> grid_env x \<noteq> NaN \<longrightarrow> GRID_KGCO2_PER_KWH x = grid_env x)
   \<and> GRID_KGCO2_PER_KWH x \<noteq> Fin 0
   \<and> GRID_KGCO2_PER_KWH x \<noteq> NaN
   \<and> (\<not> js_less (Fin 0) (GRID_KGCO2_PER_KWH x)
        \<longleftrightarrow> grid_env x = NInf \<or> (\<exists>r. r < 0 \<and> grid_env x = Fin r))
   \<and> (\<exists>j. body (fst (stats x db)) = StatsJson j \<and>
          st_co2_saved_kg j = to_json (sum_or_zero (map co2_saved_kg (optimizations db))) \<and>
          st_energy_saved_kwh j =
            to_json (if js_less (Fin 0) (GRID_KGCO2_PER_KWH x)
                     then js_div (sum_or_zero (map co2_saved_kg (optimizations db)))
                            (GRID_KGCO2_PER_KWH x)
                     else Fin 0))
   \<and> (status (fst (optimize x db tok b)) = 200 \<longrightarrow>
        co2_saved_kg (stored_row x db tok b) =
          js_mul (js_mul (tokens_saved (stored_row x db tok b)) (Fin (0.0003 / 1000)))
            (GRID_KGCO2_PER_KWH x)
        \<and> (\<exists>j. body (fst (optimize x db tok b)) = OptimizeJson j \<and>
             res_kwh_saved j =
               to_json (js_mul (tokens_saved (stored_row x db tok b)) (Fin (0.0003 / 1000))) \<and>
             res_co2_saved_kg j =
               to_json (js_mul
                 (js_mul (tokens_saved (stored_row x db tok b)) (Fin (0.0003 / 1000)))
                 (GRID_KGCO2_PER_KWH x))))"
proof -
  have neg: "\<not> js_less (Fin 0) (GRID_KGCO2_PER_KWH x)
        \<longleftrightarrow> grid_env x = NInf \<or> (\<exists>r. r < 0 \<and> grid_env x = Fin r)"
    by (rule GRID_guard)
  have zero: "grid_env x = Fin 0 \<longrightarrow> GRID_KGCO2_PER_KWH x = Fin 0.45"
    and nan: "grid_env x = NaN \<longrightarrow> GRID_KGCO2_PER_KWH x = Fin 0.45"
    and other: "grid_env x \<noteq> Fin 0 \<and> grid_env x \<noteq> NaN \<longrightarrow>
                  GRID_KGCO2_PER_KWH x = grid_env x"
    by (simp_all add: GRID_KGCO2_PER_KWH_def or_default_def)
  have def: "GRID_KGCO2_PER_KWH x = or_default (grid_env x) (Fin 0.45)"
    by (rule GRID_KGCO2_PER_KWH_def)
  have st: "\<exists>j. body (fst (stats x db)) = StatsJson j \<and>
          st_co2_saved_kg j = to_json (sum_or_zero (map co2_saved_kg (optimizations db))) \<and>
          st_energy_saved_kwh j =
            to_json (if js_less (Fin 0) (GRID_KGCO2_PER_KWH x)
                     then js_div (sum_or_zero (map co2_saved_kg (optimizations db)))
                            (GRID_KGCO2_PER_KWH x)
                     else Fin 0)"
    unfolding stats_value by (simp add: reply_def)
  have opt: "co2_saved_kg (stored_row x db tok b) =
          js_mul (js_mul (tokens_saved (stored_row x db tok b)) (Fin (0.0003 / 1000)))
            (GRID_KGCO2_PER_KWH x)
        \<and> (\<exists>j. body (fst (optimize x db tok b)) = OptimizeJson j \<and>
             res_kwh_saved j =
               to_json (js_mul (tokens_saved (stored_row x db tok b)) (Fin (0.0003 / 1000))) \<and>
             res_co2_saved_kg j =
               to_json (js_mul
                 (js_mul (tokens_saved (stored_row x db tok b)) (Fin (0.0003 / 1000)))
                 (GRID_KGCO2_PER_KWH x)))"
    if ok: "status (fst (optimize x db tok b)) = 200"
  proof -
    note co2 = optimize_row(8) [OF ok]
    have "\<exists>j. body (fst (optimize x db tok b)) = OptimizeJson j \<and>
             res_kwh_saved j =
               to_json (js_mul (tokens_saved (stored_row x db tok b)) (Fin (0.0003 / 1000))) \<and>
             res_co2_saved_kg j = to_json (co2_saved_kg (stored_row x db tok b))"
      by (subst (1) optimize_reply [OF ok]) (simp add: reply_def)
    then obtain j where j: "body (fst (optimize x db tok b)) = OptimizeJson j"
      "res_kwh_saved j =
         to_json (js_mul (tokens_saved (stored_row x db tok b)) (Fin (0.0003 / 1000)))"
      "res_co2_saved_kg j = to_json (co2_saved_kg (stored_row x db tok b))"
      by blast
    from j(3) co2 have "res_co2_saved_kg j =
               to_json (js_mul
                 (js_mul (tokens_saved (stored_row x db tok b)) (Fin (0.0003 / 1000)))
                 (GRID_KGCO2_PER_KWH x))"
      by (simp only:)
    with j(1,2) co2 show ?thesis by blast
  qed
  from def zero nan other GRID_nonzero [of x] neg st opt show ?thesis by blast
qed

text \<open>
  The grid intensity where the environment has 0, where it has no number, where it has
  0.2, and where it has -1.
\<close>

theorem grid_intensity_fallback_witness:
  "grid_env (sample_externals (Fin 0)) = Fin 0
   \<and> GRID_KGCO2_PER_KWH (sample_externals (Fin 0)) = Fin 0.45
   \<and> grid_env (sample_externals NaN) = NaN
   \<and> GRID_KGCO2_PER_KWH (sample_externals NaN) = Fin 0.45
   \<and> status (fst (optimize (sample_externals NaN) empty_db None
        (body_of (String (js ''a'')) Undefined (Number (Fin 10)) (Number (Fin 6))))) = 200
   \<and> co2_saved_kg (stored_row (sample_externals NaN) empty_db None
        (body_of (String (js ''a'')) Undefined (Number (Fin 10)) (Number (Fin 6))))
       = Fin (4 * (0.0003 / 1000) * 0.45)
   \<and> grid_env (sample_externals (Fin 0.2)) \<noteq> Fin 0
   \<and> grid_env (sample_externals (Fin 0.2)) \<noteq> NaN
   \<and> GRID_KGCO2_PER_KWH (sample_externals (Fin 0.2)) = Fin 0.2
   \<and> (- 1 :: real) < 0
   \<and> grid_env (sample_externals (Fin (- 1))) = Fin (- 1)
   \<and> GRID_KGCO2_PER_KWH (sample_externals (Fin (- 1))) = Fin (- 1)
   \<and> \<not> js_less (Fin 0) (GRID_KGCO2_PER_KWH (sample_externals (Fin (- 1))))"
  using grid_intensity_fallback [where x = "sample_externals (Fin 0)" and db = empty_db
      and b = None and tok = None]
    grid_intensity_fallback [where x = "sample_externals NaN" and db = empty_db
      and b = "body_of (String (js ''a'')) Undefined (Number (Fin 10)) (Number (Fin 6))"
      and tok = None]
    grid_intensity_fallback [where x = "sample_externals (Fin 0.2)" and db = empty_db
      and b = None and tok = None]
    grid_intensity_fallback [where x = "sample_externals (Fin (- 1))" and db = empty_db
      and b = None and tok = None]
  by (simp add: sample_grid optimize_sample_supplied [OF sample_grid(1)] reply_def
        or_default_def)

text \<open>
  Claim C10 as stated fails where the environment sets a negative grid intensity: with
  \<^verbatim>\<open>GRID_KGCO2_PER_KWH=-1\<close> the guard of the stats handler fails, and after one
  optimize request with the counts 100 and 60 the snapshot has \<open>energy_saved_kwh = 0\<close>.
\<close>

theorem stats_guard_reached:
  "\<not> js_less (Fin 0) (GRID_KGCO2_PER_KWH (sample_externals (Fin (- 1))))
   \<and> fst (stats (sample_externals (Fin (- 1)))
         (run (sample_externals (Fin (- 1))) empty_db
            [Optimize None
               (body_of (String (js ''a'')) Undefined (Number (Fin 100)) (Number (Fin 60)))]))
     = reply 200 (StatsJson
         \<lparr>st_users = 0, st_co2_saved_kg = Number (Fin (- (3 / 250000))),
          st_co2_saved_g = Number (Fin (- (3 / 250))),
          st_prompts_optimized = 1, st_energy_saved_kwh = Number (Fin 0),
          st_impact_score = Number (Fin (- (3 / 250) + 0.1))\<rparr>)"
  by (simp add: optimize_sample_supplied [OF sample_grid(3)] sample_grid stats_def
        sum_or_zero_def Let_def)

end
